theory Spec2Isabelle
  imports Complex_Main
begin

section \<open>Storage model\<close>

text \<open>
  The backend keeps its state in four MySQL tables (\<open>account_groups\<close>, \<open>accounts\<close>,
  \<open>transactions\<close>, and the two tables \<open>invoices\<close> and \<open>payments\<close> that
  \<open>Accounts.deleteAccount\<close> queries). A table is a list of rows, a row is a record.
  Identifiers are natural numbers, money amounts are exact rationals (the columns are
  decimals; no rounding is modelled), \<open>NOW()\<close> is a natural number handed to every
  operation, and a nullable
  column or an optional request field is an \<open>option\<close> (\<open>None\<close> for
  \<open>null\<close>/\<open>undefined\<close>). Every statement is assumed to be executed by the
  engine unless the model says otherwise.
\<close>

record account_group =
  g_id :: nat
  g_group_name :: string
  g_created_at :: nat
  g_updated_at :: nat

record account =
  a_id :: nat
  a_account_name :: string
  a_account_code :: "string option"
  a_group_id :: "nat option"
  a_phone :: "string option"
  a_email :: "string option"
  a_address :: "string option"
  a_tax_number :: "string option"
  a_tax_office :: "string option"
  a_balance :: rat
  a_account_type :: string
  a_is_active :: bool
  a_created_at :: nat
  a_updated_at :: nat

record transaction =
  t_id :: nat
  t_account_id :: nat
  t_transaction_type :: string
  t_amount :: rat
  t_description :: "string option"
  t_reference_number :: "string option"
  t_transaction_date :: string
  t_due_date :: "string option"
  t_payment_method :: string
  t_status :: string
  t_is_active :: bool
  t_created_at :: nat
  t_updated_at :: nat

record invoice =
  i_id :: nat
  i_customer_id :: nat

record payment =
  p_id :: nat
  p_account_id :: nat

record db =
  account_groups :: "account_group list"
  accounts :: "account list"
  transactions :: "transaction list"
  invoices :: "invoice list"
  payments :: "payment list"
  next_transaction_id :: nat

text \<open>
  The result envelope \<open>{success, data | error}\<close>. The error messages of the source are
  Turkish sentences; each one is a constructor here:
  \<^item> \<open>ValidationError f\<close>: a required-field or format check on field \<open>f\<close> failed;
  \<^item> \<open>AccountNotFound\<close>: "Belirtilen cari hesap bulunamadi";
  \<^item> \<open>DuplicateReference\<close>: "Bu referans numarasi zaten kullaniliyor" (and the update variant);
  \<^item> \<open>NotFound\<close>: "Islem bulunamadi", "Cari hesap bulunamadi", "Grup bulunamadi";
  \<^item> \<open>HasDependents n\<close>: "... bagli n ... bulundugu icin silinemez";
  \<^item> \<open>NotAffected\<close>: "... guncellenemedi" / "... silinemedi" (no row was affected);
  \<^item> \<open>DuplicateCode\<close>, \<open>DuplicateName\<close>, \<open>GroupNotFound\<close>, \<open>InvalidEmail\<close>: the account checks;
  \<^item> \<open>StorageError\<close>: an exception of the driver or engine caught by the operation.
\<close>

datatype error =
    ValidationError string
  | AccountNotFound
  | DuplicateReference
  | NotFound
  | HasDependents nat
  | NotAffected
  | DuplicateCode
  | DuplicateName
  | GroupNotFound
  | InvalidEmail
  | StorageError

section \<open>JavaScript truthiness of request fields\<close>

text \<open>\<open>!x\<close> on an optional number: absent or zero.\<close>

definition falsy_num :: "nat option \<Rightarrow> bool" where
  "falsy_num x = (case x of None \<Rightarrow> True | Some n \<Rightarrow> n = 0)"

text \<open>\<open>x\<close> used as a condition, \<open>x\<close> an optional string: present and not empty.\<close>

definition truthy_str :: "string option \<Rightarrow> bool" where
  "truthy_str x = (case x of None \<Rightarrow> False | Some s \<Rightarrow> s \<noteq> [])"

text \<open>\<open>x || null\<close> on an optional string.\<close>

definition or_null :: "string option \<Rightarrow> string option" where
  "or_null x = (if truthy_str x then x else None)"

text \<open>\<open>x || dflt\<close> on an optional string.\<close>

definition or_else :: "string option \<Rightarrow> string \<Rightarrow> string" where
  "or_else x dflt = (case x of None \<Rightarrow> dflt | Some s \<Rightarrow> if s = [] then dflt else s)"

text \<open>\<open>!amount || isNaN(amount) || parseFloat(amount) <= 0\<close> on an optional number.\<close>

definition invalid_amount :: "rat option \<Rightarrow> bool" where
  "invalid_amount x = (case x of None \<Rightarrow> True | Some a \<Rightarrow> a = 0 \<or> a \<le> 0)"

text \<open>\<open>!t || !['income', 'expense', 'receivable', 'payable'].includes(t)\<close>.\<close>

definition invalid_type :: "string option \<Rightarrow> bool" where
  "invalid_type x = (case x of None \<Rightarrow> True
     | Some t \<Rightarrow> t = [] \<or> t \<notin> set [''income'', ''expense'', ''receivable'', ''payable''])"

text \<open>White space of \<open>String.prototype.trim\<close> and of \<open>\s\<close>, on 8-bit characters.\<close>

definition is_space :: "char \<Rightarrow> bool" where
  "is_space c = (c \<in> set [CHR '' '', CHR 0x09, CHR 0x0A, CHR 0x0B, CHR 0x0C, CHR 0x0D, CHR 0xA0])"

definition trim :: "string \<Rightarrow> string" where
  "trim s = rev (dropWhile is_space (rev (dropWhile is_space s)))"

section \<open>JavaScript numbers\<close>

text \<open>
  A number of a request is an IEEE 754 double. \<open>to_double\<close> is the conversion of a
  decimal to the nearest double, ties to the even significand, as \<open>parseFloat\<close>, a number
  literal of the source and the JSON parser do it; it is the identity on a value that is
  a double already. A double is represented by its exact rational value; \<open>2^1024\<close> stands
  for \<open>Infinity\<close>.
\<close>

definition pow2 :: "int \<Rightarrow> rat" where
  "pow2 k = (if 0 \<le> k then 2 ^ nat k else 1 / 2 ^ nat (- k))"

fun bit_length :: "nat \<Rightarrow> nat" where
  "bit_length n = (if n = 0 then 0 else Suc (bit_length (n div 2)))"

text \<open>The greatest \<open>e\<close> with \<open>2^e \<le> x\<close>, for a positive \<open>x\<close>.\<close>

definition binary_exponent :: "rat \<Rightarrow> int" where
  "binary_exponent x =
     (if 1 \<le> x then int (bit_length (nat \<lfloor>x\<rfloor>)) - 1
      else - int (bit_length (nat (\<lceil>1 / x\<rceil> - 1))))"

definition round_half_even :: "rat \<Rightarrow> int" where
  "round_half_even q =
     (let f = \<lfloor>q\<rfloor>; r = q - of_int f
      in if r < 1 / 2 then f else if 1 / 2 < r then f + 1 else if even f then f else f + 1)"

text \<open>
  53 bits of significand; the exponent is at least -1022 (below that the doubles are
  subnormal and evenly spaced); a result of \<open>2^1024\<close> or more is \<open>Infinity\<close>.
\<close>

definition to_double :: "rat \<Rightarrow> rat" where
  "to_double x =
     (if x = 0 then 0
      else
        let e = max (binary_exponent \<bar>x\<bar>) (- 1022);
            ulp = pow2 (e - 52);
            r = of_int (round_half_even (\<bar>x\<bar> / ulp)) * ulp;
            m = (if pow2 1024 \<le> r then pow2 1024 else r)
        in if x < 0 then - m else m)"

fun digit_count :: "nat \<Rightarrow> nat" where
  "digit_count n = (if n < 10 then 1 else Suc (digit_count (n div 10)))"

text \<open>
  \<open>parseInt\<close> of a number that is a natural. The number is printed and its leading
  digits are read back. Below \<open>10^21\<close> the print is positional and the result is the
  number; from \<open>10^21\<close> on it is the shortest scientific notation that reads back as
  the same double, of which \<open>parseInt\<close> reads the one digit before the point or the
  exponent: the leading digit of the value, unless the next one-digit decimal above it
  is the same double. \<open>Infinity\<close> gives \<open>NaN\<close>, which is \<open>None\<close>.
\<close>

definition parseInt :: "nat \<Rightarrow> nat option" where
  "parseInt n =
     (let v = to_double (of_nat n)
      in if pow2 1024 \<le> v then None
         else if v < 10 ^ 21 then Some (nat \<lfloor>v\<rfloor>)
         else
           let m = digit_count (nat \<lfloor>v\<rfloor>) - 1;
               d = nat \<lfloor>v\<rfloor> div 10 ^ m
           in if to_double (of_nat ((d + 1) * 10 ^ m)) = v then Some (if d = 9 then 1 else d + 1)
              else Some d)"

section \<open>The Transactions model\<close>

subsection \<open>Transactions.updateAccountBalance\<close>

text \<open>
  The value of the local variable \<open>balanceChange\<close>: it starts at 0 and is assigned in
  one of the four branches; an unknown operation or type leaves it at 0.
\<close>

definition balanceChange :: "string \<Rightarrow> rat \<Rightarrow> string \<Rightarrow> rat" where
  "balanceChange transactionType amount operation =
     (if operation = ''add'' then
        (if transactionType = ''income'' \<or> transactionType = ''receivable'' then amount
         else if transactionType = ''expense'' \<or> transactionType = ''payable'' then - amount
         else 0)
      else if operation = ''subtract'' then
        (if transactionType = ''income'' \<or> transactionType = ''receivable'' then - amount
         else if transactionType = ''expense'' \<or> transactionType = ''payable'' then amount
         else 0)
      else 0)"

text \<open>
  \<open>UPDATE accounts SET balance = balance + ?, updated_at = NOW() WHERE id = ?\<close>: the
  statement does not look at \<open>is_active\<close>. The function's own result is ignored by
  all its callers, so the model returns the new state only.
\<close>

definition updateAccountBalance :: "nat \<Rightarrow> nat \<Rightarrow> string \<Rightarrow> rat \<Rightarrow> string \<Rightarrow> db \<Rightarrow> db" where
  "updateAccountBalance now accountId transactionType amount operation d =
     d\<lparr>accounts :=
         map (\<lambda>a. if a_id a = accountId
                   then a\<lparr>a_balance := a_balance a + balanceChange transactionType amount operation,
                          a_updated_at := now\<rparr>
                   else a)
             (accounts d)\<rparr>"

subsection \<open>Transactions.getTransactionById\<close>

text \<open>
  \<open>SELECT ... FROM transactions t LEFT JOIN accounts a ... WHERE t.id = ? AND t.is_active = 1\<close>,
  then \<open>rows[0]\<close>. The joined account name and code are not used by any caller in the
  model and are left out of the returned row.
\<close>

definition getTransactionById :: "nat \<Rightarrow> db \<Rightarrow> error + transaction" where
  "getTransactionById tid d =
     (case filter (\<lambda>t. t_id t = tid \<and> t_is_active t) (transactions d) of
        [] \<Rightarrow> Inl NotFound
      | row # _ \<Rightarrow> Inr row)"

subsection \<open>Transactions.createTransaction\<close>

record transaction_data =
  account_id :: "nat option"
  transaction_type :: "string option"
  amount :: "rat option"
  description :: "string option"
  reference_number :: "string option"
  transaction_date :: "string option"
  due_date :: "string option"
  payment_method :: "string option"
  status :: "string option"

text \<open>The \<open>data\<close> object of a successful create or update: id, account id, type, amount.\<close>

type_synonym transaction_summary = "nat \<times> nat \<times> string \<times> rat"

text \<open>
  The checks run in the order of the source: account id, type, amount, date, the account
  lookup, the reference-number lookup; then the insert (the new id is the table's
  auto-increment counter) and the balance adjustment. Absent \<open>payment_method\<close> and
  \<open>status\<close> take the defaults of the destructuring pattern.
\<close>

definition createTransaction :: "nat \<Rightarrow> transaction_data \<Rightarrow> db \<Rightarrow> (error + transaction_summary) \<times> db" where
  "createTransaction now data d =
     (if falsy_num (account_id data) then (Inl (ValidationError ''account_id''), d)
      else if invalid_type (transaction_type data) then (Inl (ValidationError ''transaction_type''), d)
      else if invalid_amount (amount data) then (Inl (ValidationError ''amount''), d)
      else if \<not> truthy_str (transaction_date data) then (Inl (ValidationError ''transaction_date''), d)
      else if filter (\<lambda>a. a_id a = the (account_id data) \<and> a_is_active a) (accounts d) = []
        then (Inl AccountNotFound, d)
      else if truthy_str (reference_number data) \<and>
              filter (\<lambda>t. t_reference_number t = reference_number data \<and> t_is_active t) (transactions d) \<noteq> []
        then (Inl DuplicateReference, d)
      else
        let insertId = next_transaction_id d;
            row = \<lparr>t_id = insertId,
                   t_account_id = the (account_id data),
                   t_transaction_type = the (transaction_type data),
                   t_amount = the (amount data),
                   t_description = description data,
                   t_reference_number = reference_number data,
                   t_transaction_date = the (transaction_date data),
                   t_due_date = due_date data,
                   t_payment_method = (case payment_method data of None \<Rightarrow> ''cash'' | Some m \<Rightarrow> m),
                   t_status = (case status data of None \<Rightarrow> ''completed'' | Some s \<Rightarrow> s),
                   t_is_active = True,
                   t_created_at = now,
                   t_updated_at = now\<rparr>;
            d1 = d\<lparr>transactions := transactions d @ [row], next_transaction_id := Suc insertId\<rparr>;
            d2 = updateAccountBalance now (the (account_id data)) (the (transaction_type data))
                   (the (amount data)) ''add'' d1
        in (Inr (insertId, the (account_id data), the (transaction_type data), the (amount data)), d2))"

subsection \<open>Transactions.updateTransaction\<close>

text \<open>
  The update has no check of \<open>transaction_date\<close>. The driver refuses to bind an absent
  value, so the \<open>UPDATE\<close> statement raises when the date is absent; the exception is
  caught and reported, after the reversal of the old contribution has been executed.
  \<open>affectedRows\<close> is the number of rows matching \<open>id = ? AND is_active = 1\<close>.
\<close>

definition updateTransaction :: "nat \<Rightarrow> nat \<Rightarrow> transaction_data \<Rightarrow> db \<Rightarrow> (error + transaction_summary) \<times> db" where
  "updateTransaction now tid data d =
     (case getTransactionById tid d of
        Inl e \<Rightarrow> (Inl e, d)
      | Inr oldTransaction \<Rightarrow>
          if falsy_num (account_id data) then (Inl (ValidationError ''account_id''), d)
          else if invalid_type (transaction_type data) then (Inl (ValidationError ''transaction_type''), d)
          else if invalid_amount (amount data) then (Inl (ValidationError ''amount''), d)
          else if filter (\<lambda>a. a_id a = the (account_id data) \<and> a_is_active a) (accounts d) = []
            then (Inl AccountNotFound, d)
          else if truthy_str (reference_number data) \<and>
                  filter (\<lambda>t. t_reference_number t = reference_number data \<and> t_id t \<noteq> tid \<and> t_is_active t)
                    (transactions d) \<noteq> []
            then (Inl DuplicateReference, d)
          else
            let d1 = updateAccountBalance now (t_account_id oldTransaction)
                       (t_transaction_type oldTransaction) (t_amount oldTransaction) ''subtract'' d
            in (case transaction_date data of
                  None \<Rightarrow> (Inl StorageError, d1)
                | Some new_date \<Rightarrow>
                    let affectedRows = length (filter (\<lambda>t. t_id t = tid \<and> t_is_active t) (transactions d1));
                        d2 = d1\<lparr>transactions :=
                               map (\<lambda>t. if t_id t = tid \<and> t_is_active t
                                         then t\<lparr>t_account_id := the (account_id data),
                                                t_transaction_type := the (transaction_type data),
                                                t_amount := the (amount data),
                                                t_description := or_null (description data),
                                                t_reference_number := or_null (reference_number data),
                                                t_transaction_date := new_date,
                                                t_due_date := or_null (due_date data),
                                                t_payment_method := or_else (payment_method data) (t_payment_method oldTransaction),
                                                t_status := or_else (status data) (t_status oldTransaction),
                                                t_updated_at := now\<rparr>
                                         else t)
                                   (transactions d1)\<rparr>
                    in if affectedRows = 0 then (Inl NotAffected, d2)
                       else
                         (Inr (tid, the (account_id data), the (transaction_type data), the (amount data)),
                          updateAccountBalance now (the (account_id data)) (the (transaction_type data))
                            (the (amount data)) ''add'' d2)))"

subsection \<open>Transactions.deleteTransaction\<close>

text \<open>
  \<open>UPDATE transactions SET is_active = 0, updated_at = NOW() WHERE id = ?\<close>, then the
  reversal of the row that \<open>getTransactionById\<close> returned.
\<close>

definition deleteTransaction :: "nat \<Rightarrow> nat \<Rightarrow> db \<Rightarrow> (error + unit) \<times> db" where
  "deleteTransaction now tid d =
     (case getTransactionById tid d of
        Inl e \<Rightarrow> (Inl e, d)
      | Inr transaction \<Rightarrow>
          let affectedRows = length (filter (\<lambda>t. t_id t = tid) (transactions d));
              d1 = d\<lparr>transactions :=
                     map (\<lambda>t. if t_id t = tid then t\<lparr>t_is_active := False, t_updated_at := now\<rparr> else t)
                         (transactions d)\<rparr>
          in if affectedRows = 0 then (Inl NotAffected, d1)
             else (Inr (),
                   updateAccountBalance now (t_account_id transaction) (t_transaction_type transaction)
                     (t_amount transaction) ''subtract'' d1))"

subsection \<open>Transactions.getFilteredTransactions\<close>

record transaction_filters =
  f_cari_id :: "nat option"
  f_islem_tipi :: "string option"
  f_min_tutar :: "rat option"
  f_max_tutar :: "rat option"
  f_baslangic_tarihi :: "string option"
  f_bitis_tarihi :: "string option"
  f_aciklama_icinde :: "string option"
  f_status :: "string option"
  f_payment_method :: "string option"
  f_limit :: "nat option"
  f_offset :: "nat option"

text \<open>
  The entries of the array \<open>conditions\<close> are SQL fragments; each constructor stands for
  one of them:
  \<open>t.account_id = ?\<close>, \<open>t.transaction_type = ?\<close>, \<open>t.amount >= ?\<close>, \<open>t.amount <= ?\<close>,
  \<open>t.transaction_date >= ?\<close>, \<open>t.transaction_date <= ?\<close>,
  \<open>(t.description LIKE ? OR t.reference_number LIKE ?)\<close>, \<open>t.status = ?\<close>,
  \<open>t.payment_method = ?\<close>. The entries of \<open>params\<close> are the bound values;
  \<open>PNaN\<close> is the value \<open>NaN\<close>, with which no comparison holds and which is no
  row count.
\<close>

datatype condition =
    AccountIdEq | TypeEq | AmountGe | AmountLe | DateGe | DateLe | TextLike | StatusEq | PaymentMethodEq

datatype sql_param = PInt nat | PNum rat | PStr string | PNaN

fun placeholders :: "condition \<Rightarrow> nat" where
  "placeholders TextLike = 2"
| "placeholders _ = 1"

text \<open>Dates are \<open>YYYY-MM-DD\<close> strings; on them the order of dates is the order of strings.\<close>

fun str_le :: "string \<Rightarrow> string \<Rightarrow> bool" where
  "str_le [] ys = True"
| "str_le (x # xs) [] = False"
| "str_le (x # xs) (y # ys) = ((of_char x :: nat) < of_char y \<or> (x = y \<and> str_le xs ys))"

text \<open>
  One fragment on one row with the values bound to its placeholders. The operator
  \<open>LIKE\<close> (its wildcards and the collation of the column) is a parameter; \<open>LIKE\<close> on
  a \<open>NULL\<close> column does not hold.
\<close>

fun holds :: "(string \<Rightarrow> string \<Rightarrow> bool) \<Rightarrow> condition \<Rightarrow> sql_param list \<Rightarrow> transaction \<Rightarrow> bool" where
  "holds like AccountIdEq ps t = (case ps of [PInt n] \<Rightarrow> t_account_id t = n | _ \<Rightarrow> False)"
| "holds like TypeEq ps t = (case ps of [PStr s] \<Rightarrow> t_transaction_type t = s | _ \<Rightarrow> False)"
| "holds like AmountGe ps t = (case ps of [PNum x] \<Rightarrow> t_amount t \<ge> x | _ \<Rightarrow> False)"
| "holds like AmountLe ps t = (case ps of [PNum x] \<Rightarrow> t_amount t \<le> x | _ \<Rightarrow> False)"
| "holds like DateGe ps t = (case ps of [PStr s] \<Rightarrow> str_le s (t_transaction_date t) | _ \<Rightarrow> False)"
| "holds like DateLe ps t = (case ps of [PStr s] \<Rightarrow> str_le (t_transaction_date t) s | _ \<Rightarrow> False)"
| "holds like TextLike ps t =
     (case ps of
        [PStr p, PStr q] \<Rightarrow>
          (case t_description t of None \<Rightarrow> False | Some s \<Rightarrow> like s p) \<or>
          (case t_reference_number t of None \<Rightarrow> False | Some s \<Rightarrow> like s q)
      | _ \<Rightarrow> False)"
| "holds like StatusEq ps t = (case ps of [PStr s] \<Rightarrow> t_status t = s | _ \<Rightarrow> False)"
| "holds like PaymentMethodEq ps t = (case ps of [PStr s] \<Rightarrow> t_payment_method t = s | _ \<Rightarrow> False)"

fun holds_all :: "(string \<Rightarrow> string \<Rightarrow> bool) \<Rightarrow> condition list \<Rightarrow> sql_param list \<Rightarrow> transaction \<Rightarrow> bool" where
  "holds_all like [] ps t = True"
| "holds_all like (c # cs) ps t =
     (holds like c (take (placeholders c) ps) t \<and> holds_all like cs (drop (placeholders c) ps) t)"

text \<open>\<open>ORDER BY t.transaction_date DESC, t.created_at DESC\<close>, as an insertion sort.\<close>

definition newer_first :: "transaction \<Rightarrow> transaction \<Rightarrow> bool" where
  "newer_first t u =
     (if t_transaction_date t = t_transaction_date u then t_created_at u \<le> t_created_at t
      else str_le (t_transaction_date u) (t_transaction_date t))"

fun insert_row :: "transaction \<Rightarrow> transaction list \<Rightarrow> transaction list" where
  "insert_row t [] = [t]"
| "insert_row t (u # us) = (if newer_first t u then t # u # us else u # insert_row t us)"

definition order_rows :: "transaction list \<Rightarrow> transaction list" where
  "order_rows rows = foldr insert_row rows []"

text \<open>
  A prepared statement is executed only with as many values as it has placeholders;
  otherwise the call raises. The join with \<open>accounts\<close> is on its primary key, so every
  transaction row appears once.
\<close>

datatype paging = NoLimit | Limit | LimitOffset

fun paging_placeholders :: "paging \<Rightarrow> nat" where
  "paging_placeholders NoLimit = 0"
| "paging_placeholders Limit = 1"
| "paging_placeholders LimitOffset = 2"

definition where_rows :: "(string \<Rightarrow> string \<Rightarrow> bool) \<Rightarrow> condition list \<Rightarrow> sql_param list \<Rightarrow> transaction list \<Rightarrow> transaction list" where
  "where_rows like conditions params rows =
     filter (\<lambda>t. t_is_active t \<and> holds_all like conditions params t) rows"

definition page :: "paging \<Rightarrow> sql_param list \<Rightarrow> transaction list \<Rightarrow> error + transaction list" where
  "page pg ps rows =
     (case pg of
        NoLimit \<Rightarrow> Inr rows
      | Limit \<Rightarrow> (case ps of [PInt l] \<Rightarrow> Inr (take l rows) | _ \<Rightarrow> Inl StorageError)
      | LimitOffset \<Rightarrow>
          (case ps of [PInt l, PInt off] \<Rightarrow> Inr (take l (drop off rows)) | _ \<Rightarrow> Inl StorageError))"

definition execute_baseQuery ::
    "(string \<Rightarrow> string \<Rightarrow> bool) \<Rightarrow> condition list \<Rightarrow> paging \<Rightarrow> sql_param list \<Rightarrow> transaction list \<Rightarrow> error + transaction list" where
  "execute_baseQuery like conditions pg params rows =
     (let n = sum_list (map placeholders conditions)
      in if length params \<noteq> n + paging_placeholders pg then Inl StorageError
         else page pg (drop n params) (order_rows (where_rows like conditions (take n params) rows)))"

definition execute_countQuery ::
    "(string \<Rightarrow> string \<Rightarrow> bool) \<Rightarrow> condition list \<Rightarrow> sql_param list \<Rightarrow> transaction list \<Rightarrow> error + nat" where
  "execute_countQuery like conditions params rows =
     (if length params \<noteq> sum_list (map placeholders conditions) then Inl StorageError
      else Inr (length (where_rows like conditions params rows)))"

text \<open>
  The arrays \<open>conditions\<close> and \<open>params\<close> after the nine filter blocks. The account
  id, the limit and the offset are bound as \<open>parseInt(...)\<close>, the amounts as
  \<open>parseFloat(...)\<close>.
\<close>

definition bind_int :: "nat \<Rightarrow> sql_param" where
  "bind_int n = (case parseInt n of None \<Rightarrow> PNaN | Some k \<Rightarrow> PInt k)"

definition filter_conditions :: "transaction_filters \<Rightarrow> condition list" where
  "filter_conditions filters =
     (if falsy_num (f_cari_id filters) then [] else [AccountIdEq]) @
     (if invalid_type (f_islem_tipi filters) then [] else [TypeEq]) @
     (case f_min_tutar filters of None \<Rightarrow> [] | Some x \<Rightarrow> if x = 0 then [] else [AmountGe]) @
     (case f_max_tutar filters of None \<Rightarrow> [] | Some x \<Rightarrow> if x = 0 then [] else [AmountLe]) @
     (if truthy_str (f_baslangic_tarihi filters) then [DateGe] else []) @
     (if truthy_str (f_bitis_tarihi filters) then [DateLe] else []) @
     (if truthy_str (f_aciklama_icinde filters) \<and> trim (the (f_aciklama_icinde filters)) \<noteq> []
        then [TextLike] else []) @
     (if truthy_str (f_status filters) \<and>
         the (f_status filters) \<in> set [''completed'', ''pending'', ''cancelled'']
        then [StatusEq] else []) @
     (if truthy_str (f_payment_method filters) then [PaymentMethodEq] else [])"

definition filter_params :: "transaction_filters \<Rightarrow> sql_param list" where
  "filter_params filters =
     (if falsy_num (f_cari_id filters) then [] else [bind_int (the (f_cari_id filters))]) @
     (if invalid_type (f_islem_tipi filters) then [] else [PStr (the (f_islem_tipi filters))]) @
     (case f_min_tutar filters of None \<Rightarrow> [] | Some x \<Rightarrow> if x = 0 then [] else [PNum (to_double x)]) @
     (case f_max_tutar filters of None \<Rightarrow> [] | Some x \<Rightarrow> if x = 0 then [] else [PNum (to_double x)]) @
     (if truthy_str (f_baslangic_tarihi filters) then [PStr (the (f_baslangic_tarihi filters))] else []) @
     (if truthy_str (f_bitis_tarihi filters) then [PStr (the (f_bitis_tarihi filters))] else []) @
     (if truthy_str (f_aciklama_icinde filters) \<and> trim (the (f_aciklama_icinde filters)) \<noteq> []
        then [PStr (''%'' @ trim (the (f_aciklama_icinde filters)) @ ''%''),
              PStr (''%'' @ trim (the (f_aciklama_icinde filters)) @ ''%'')]
        else []) @
     (if truthy_str (f_status filters) \<and>
         the (f_status filters) \<in> set [''completed'', ''pending'', ''cancelled'']
        then [PStr (the (f_status filters))] else []) @
     (if truthy_str (f_payment_method filters) then [PStr (the (f_payment_method filters))] else [])"

text \<open>\<open>LIMIT ?\<close> is appended for a truthy limit, and \<open>OFFSET ?\<close> only inside that block.\<close>

definition filter_paging :: "transaction_filters \<Rightarrow> paging" where
  "filter_paging filters =
     (if falsy_num (f_limit filters) then NoLimit
      else if falsy_num (f_offset filters) then Limit else LimitOffset)"

definition paging_params :: "transaction_filters \<Rightarrow> sql_param list" where
  "paging_params filters =
     (if falsy_num (f_limit filters) then []
      else if falsy_num (f_offset filters) then [bind_int (the (f_limit filters))]
      else [bind_int (the (f_limit filters)), bind_int (the (f_offset filters))])"

text \<open>
  The result is the page and \<open>totalCount\<close>. The values for the count statement are
  \<open>params.slice(0, conditions.length * (filters.aciklama_icinde ? 2 : 1))\<close>, cut from
  the array that already holds the limit and the offset.
\<close>

definition getFilteredTransactions ::
    "(string \<Rightarrow> string \<Rightarrow> bool) \<Rightarrow> transaction_filters \<Rightarrow> db \<Rightarrow> error + transaction list \<times> nat" where
  "getFilteredTransactions like filters d =
     (let conditions = filter_conditions filters;
          params = filter_params filters @ paging_params filters
      in case execute_baseQuery like conditions (filter_paging filters) params (transactions d) of
           Inl e \<Rightarrow> Inl e
         | Inr rows \<Rightarrow>
             let countParams =
                   take (length conditions * (if truthy_str (f_aciklama_icinde filters) then 2 else 1)) params
             in (case execute_countQuery like conditions countParams (transactions d) of
                   Inl e \<Rightarrow> Inl e
                 | Inr totalCount \<Rightarrow> Inr (rows, totalCount)))"

section \<open>The transaction controller\<close>

text \<open>
  The create handler validates the request body and calls the model. A response is the
  status code with the result envelope. The fields of a body are typed: an id is a
  natural number or absent, an amount is the decimal that the request carries or absent.
\<close>

type_synonym 'a response = "nat \<times> (error + 'a)"

record transaction_body =
  cari_id :: "nat option"
  islem_tipi :: "string option"
  tutar :: "rat option"
  islem_tarihi :: "string option"
  aciklama :: "string option"
  referans_no :: "string option"
  vade_tarihi :: "string option"
  odeme_yontemi :: "string option"
  durum :: "string option"

definition is_digit :: "char \<Rightarrow> bool" where
  "is_digit c = (c \<in> set ''0123456789'')"

text \<open>\<open>/^\d{4}-\d{2}-\d{2}$/.test(s)\<close>.\<close>

definition dateRegex_test :: "string \<Rightarrow> bool" where
  "dateRegex_test s =
     (length s = 10 \<and> list_all is_digit (take 4 s) \<and> s ! 4 = CHR ''-'' \<and>
      list_all is_digit (take 2 (drop 5 s)) \<and> s ! 7 = CHR ''-'' \<and> list_all is_digit (drop 8 s))"

text \<open>
  The object \<open>transactionData\<close> that the handler builds from a validated body:
  \<open>account_id: parseInt(cari_id)\<close>, \<open>amount: parseFloat(tutar)\<close>.
\<close>

definition transactionData :: "transaction_body \<Rightarrow> transaction_data" where
  "transactionData body =
     \<lparr>account_id = (case cari_id body of None \<Rightarrow> None | Some n \<Rightarrow> parseInt n),
      transaction_type = islem_tipi body,
      amount = map_option to_double (tutar body),
      description = or_null (aciklama body),
      reference_number = or_null (referans_no body),
      transaction_date = islem_tarihi body,
      due_date = or_null (vade_tarihi body),
      payment_method = Some (or_else (odeme_yontemi body) ''cash''),
      status = Some (or_else (durum body) ''completed'')\<rparr>"

text \<open>
  \<open>transactionController.createTransaction\<close>: POST /api/transactions. The amount is
  compared as a double with the double of the literal \<open>999999999.99\<close>.
\<close>

definition transactionController_createTransaction ::
    "nat \<Rightarrow> transaction_body \<Rightarrow> db \<Rightarrow> transaction_summary response \<times> db" where
  "transactionController_createTransaction now body d =
     (if falsy_num (cari_id body) then ((400, Inl (ValidationError ''cari_id'')), d)
      else if invalid_type (islem_tipi body) then ((400, Inl (ValidationError ''islem_tipi'')), d)
      else if invalid_amount (map_option to_double (tutar body))
        then ((400, Inl (ValidationError ''tutar'')), d)
      else if \<not> truthy_str (islem_tarihi body) then ((400, Inl (ValidationError ''islem_tarihi'')), d)
      else if \<not> dateRegex_test (the (islem_tarihi body))
        then ((400, Inl (ValidationError ''islem_tarihi'')), d)
      else if truthy_str (vade_tarihi body) \<and> \<not> dateRegex_test (the (vade_tarihi body))
        then ((400, Inl (ValidationError ''vade_tarihi'')), d)
      else if truthy_str (odeme_yontemi body) \<and>
              the (odeme_yontemi body) \<notin> set [''cash'', ''bank_transfer'', ''check'', ''credit_card'']
        then ((400, Inl (ValidationError ''odeme_yontemi'')), d)
      else if truthy_str (durum body) \<and>
              the (durum body) \<notin> set [''completed'', ''pending'', ''cancelled'']
        then ((400, Inl (ValidationError ''durum'')), d)
      else if to_double (the (tutar body)) > to_double (99999999999 / 100)
        then ((400, Inl (ValidationError ''tutar'')), d)
      else if truthy_str (aciklama body) \<and> length (the (aciklama body)) > 1000
        then ((400, Inl (ValidationError ''aciklama'')), d)
      else if truthy_str (referans_no body) \<and> length (the (referans_no body)) > 100
        then ((400, Inl (ValidationError ''referans_no'')), d)
      else
        (case createTransaction now (transactionData body) d of
           (Inr data, d') \<Rightarrow> ((201, Inr data), d')
         | (Inl e, d') \<Rightarrow> ((400, Inl e), d')))"

section \<open>The Accounts model\<close>

text \<open>
  \<open>/^[^\s@]+@[^\s@]+\.[^\s@]+$/.test(s)\<close>: a non-empty local part, one \<open>@\<close>, and a
  domain with a dot that is neither its first nor its last character; no white space and
  no second \<open>@\<close> anywhere.
\<close>

definition emailRegex_test :: "string \<Rightarrow> bool" where
  "emailRegex_test s =
     (let plain = (\<lambda>c. \<not> is_space c \<and> c \<noteq> CHR ''@'');
          local_part = takeWhile (\<lambda>c. c \<noteq> CHR ''@'') s;
          rest = dropWhile (\<lambda>c. c \<noteq> CHR ''@'') s
      in local_part \<noteq> [] \<and> list_all plain local_part \<and> rest \<noteq> [] \<and>
         list_all plain (tl rest) \<and> CHR ''.'' \<in> set (butlast (tl (tl rest))))"

record account_data =
  account_name :: "string option"
  account_code :: "string option"
  group_id :: "nat option"
  phone :: "string option"
  email :: "string option"
  address :: "string option"
  tax_number :: "string option"
  tax_office :: "string option"
  balance :: "rat option"
  account_type :: "string option"

text \<open>
  \<open>Accounts.getAccountById\<close>: the first active row with the id (the joined group name
  is left out).
\<close>

definition getAccountById :: "nat \<Rightarrow> db \<Rightarrow> error + account" where
  "getAccountById aid d =
     (case filter (\<lambda>a. a_id a = aid \<and> a_is_active a) (accounts d) of
        [] \<Rightarrow> Inl NotFound
      | row # _ \<Rightarrow> Inr row)"

text \<open>\<open>parseFloat(balance) || existing\<close>: an absent balance parses to NaN, and NaN and 0 are falsy.\<close>

definition balance_or :: "rat option \<Rightarrow> rat \<Rightarrow> rat" where
  "balance_or b existing = (case b of None \<Rightarrow> existing | Some x \<Rightarrow> if x = 0 then existing else x)"

text \<open>\<open>Accounts.updateAccount\<close>: a full replace of the row, the balance included.\<close>

definition updateAccount :: "nat \<Rightarrow> nat \<Rightarrow> account_data \<Rightarrow> db \<Rightarrow> (error + nat \<times> string \<times> string option) \<times> db" where
  "updateAccount now aid data d =
     (case getAccountById aid d of
        Inl e \<Rightarrow> (Inl e, d)
      | Inr existingAccount \<Rightarrow>
          if \<not> truthy_str (account_name data) \<or> trim (the (account_name data)) = []
            then (Inl (ValidationError ''account_name''), d)
          else if truthy_str (account_code data) \<and>
                  filter (\<lambda>a. a_account_code a = account_code data \<and> a_id a \<noteq> aid \<and> a_is_active a) (accounts d) \<noteq> []
            then (Inl DuplicateCode, d)
          else if filter (\<lambda>a. a_account_name a = trim (the (account_name data)) \<and> a_id a \<noteq> aid \<and> a_is_active a)
                    (accounts d) \<noteq> []
            then (Inl DuplicateName, d)
          else if \<not> falsy_num (group_id data) \<and>
                  filter (\<lambda>g. g_id g = the (group_id data)) (account_groups d) = []
            then (Inl GroupNotFound, d)
          else if truthy_str (email data) \<and> trim (the (email data)) \<noteq> [] \<and>
                  \<not> emailRegex_test (trim (the (email data)))
            then (Inl InvalidEmail, d)
          else
            let affectedRows = length (filter (\<lambda>a. a_id a = aid \<and> a_is_active a) (accounts d));
                d1 = d\<lparr>accounts :=
                       map (\<lambda>a. if a_id a = aid \<and> a_is_active a
                                 then a\<lparr>a_account_name := trim (the (account_name data)),
                                        a_account_code := or_null (account_code data),
                                        a_group_id := (if falsy_num (group_id data) then None else group_id data),
                                        a_phone := or_null (phone data),
                                        a_email := (if truthy_str (email data) then Some (trim (the (email data))) else None),
                                        a_address := or_null (address data),
                                        a_tax_number := or_null (tax_number data),
                                        a_tax_office := or_null (tax_office data),
                                        a_balance := balance_or (balance data) (a_balance existingAccount),
                                        a_account_type := or_else (account_type data) (a_account_type existingAccount),
                                        a_updated_at := now\<rparr>
                                 else a)
                           (accounts d)\<rparr>
            in if affectedRows = 0 then (Inl NotAffected, d1)
               else (Inr (aid, trim (the (account_name data)), or_null (account_code data)), d1))"

text \<open>
  \<open>Accounts.deleteAccount\<close>: the dependency count is taken over the tables
  \<open>invoices\<close> (column \<open>customer_id\<close>) and \<open>payments\<close> (column \<open>account_id\<close>); the
  table \<open>transactions\<close> is not read. The soft delete is
  \<open>UPDATE accounts SET is_active = 0, updated_at = NOW() WHERE id = ?\<close>.
\<close>

definition deleteAccount :: "nat \<Rightarrow> nat \<Rightarrow> db \<Rightarrow> (error + unit) \<times> db" where
  "deleteAccount now aid d =
     (case getAccountById aid d of
        Inl e \<Rightarrow> (Inl e, d)
      | Inr existingAccount \<Rightarrow>
          let linkedTransactions =
                length (filter (\<lambda>i. i_customer_id i = aid) (invoices d)) +
                length (filter (\<lambda>p. p_account_id p = aid) (payments d))
          in if linkedTransactions > 0 then (Inl (HasDependents linkedTransactions), d)
             else
               let affectedRows = length (filter (\<lambda>a. a_id a = aid) (accounts d));
                   d1 = d\<lparr>accounts :=
                          map (\<lambda>a. if a_id a = aid then a\<lparr>a_is_active := False, a_updated_at := now\<rparr> else a)
                              (accounts d)\<rparr>
               in if affectedRows = 0 then (Inl NotAffected, d1) else (Inr (), d1))"

section \<open>The AccountGroups model\<close>

definition getGroupById :: "nat \<Rightarrow> db \<Rightarrow> error + account_group" where
  "getGroupById gid d =
     (case filter (\<lambda>g. g_id g = gid) (account_groups d) of
        [] \<Rightarrow> Inl NotFound
      | row # _ \<Rightarrow> Inr row)"

text \<open>
  \<open>AccountGroups.getGroupAccountCount\<close>:
  \<open>SELECT COUNT(*) FROM accounts WHERE group_id = ?\<close>, over active and inactive rows.
\<close>

definition getGroupAccountCount :: "nat \<Rightarrow> db \<Rightarrow> nat" where
  "getGroupAccountCount gid d = length (filter (\<lambda>a. a_group_id a = Some gid) (accounts d))"

text \<open>
  \<open>AccountGroups.deleteGroup\<close>: the same count inline, then
  \<open>DELETE FROM account_groups WHERE id = ?\<close>.
\<close>

definition deleteGroup :: "nat \<Rightarrow> db \<Rightarrow> (error + unit) \<times> db" where
  "deleteGroup gid d =
     (case getGroupById gid d of
        Inl e \<Rightarrow> (Inl e, d)
      | Inr existingGroup \<Rightarrow>
          let linkedAccounts = length (filter (\<lambda>a. a_group_id a = Some gid) (accounts d))
          in if linkedAccounts > 0 then (Inl (HasDependents linkedAccounts), d)
             else
               let affectedRows = length (filter (\<lambda>g. g_id g = gid) (account_groups d));
                   d1 = d\<lparr>account_groups := filter (\<lambda>g. g_id g \<noteq> gid) (account_groups d)\<rparr>
               in if affectedRows = 0 then (Inl NotAffected, d1) else (Inr (), d1))"

section \<open>Reconciliation\<close>

text \<open>
  The sign that a movement type carries. A type outside the four enumerated ones
  contributes nothing, which is what \<open>balanceChange\<close> does with it.
\<close>

definition direction :: "string \<Rightarrow> rat" where
  "direction ty =
     (if ty = ''income'' \<or> ty = ''receivable'' then 1
      else if ty = ''expense'' \<or> ty = ''payable'' then - 1
      else 0)"

text \<open>
  \<open>sum(direction(m.type) * m.amount for m in movements where m.account_id == id and m.is_active)\<close>
\<close>

definition ledger_sum :: "transaction list \<Rightarrow> nat \<Rightarrow> rat" where
  "ledger_sum rows aid =
     sum_list (map (\<lambda>m. direction (t_transaction_type m) * t_amount m)
                   (filter (\<lambda>m. t_account_id m = aid \<and> t_is_active m) rows))"

text \<open>The same sum with the rows outside the selection counted as 0.\<close>

definition contribution :: "nat \<Rightarrow> transaction \<Rightarrow> rat" where
  "contribution aid m =
     (if t_account_id m = aid \<and> t_is_active m then direction (t_transaction_type m) * t_amount m else 0)"

text \<open>
  The account with id \<open>aid\<close> is reconciled: the stored balance of its row is the signed
  sum of the active movements that reference it.
\<close>

definition reconciled_account :: "db \<Rightarrow> nat \<Rightarrow> bool" where
  "reconciled_account d aid =
     list_all (\<lambda>a. a_balance a = ledger_sum (transactions d) aid)
       (filter (\<lambda>a. a_id a = aid) (accounts d))"

text \<open>
  \<open>transactions.id\<close> is an auto-increment primary key: no two rows share an id and the
  counter is above every id in use.
\<close>

definition primary_key :: "db \<Rightarrow> bool" where
  "primary_key d =
     (distinct (map t_id (transactions d)) \<and>
      list_all (\<lambda>t. t_id t < next_transaction_id d) (transactions d))"

text \<open>The balance column, row by row, and a change of one account's balance in it.\<close>

definition balances :: "db \<Rightarrow> (nat \<times> rat) list" where
  "balances d = map (\<lambda>a. (a_id a, a_balance a)) (accounts d)"

definition shift :: "nat \<Rightarrow> rat \<Rightarrow> (nat \<times> rat) list \<Rightarrow> (nat \<times> rat) list" where
  "shift aid x bs = map (\<lambda>(i, b). if i = aid then (i, b + x) else (i, b)) bs"

text \<open>
  A sequence of calls of the three operations of the model, each at its own time. An
  update is \<open>dated\<close> when it carries a transaction date.
\<close>

datatype operation =
    CreateTransaction transaction_data
  | UpdateTransaction nat transaction_data
  | DeleteTransaction nat

fun apply_operation :: "nat \<Rightarrow> operation \<Rightarrow> db \<Rightarrow> db" where
  "apply_operation now (CreateTransaction data) d = snd (createTransaction now data d)"
| "apply_operation now (UpdateTransaction tid data) d = snd (updateTransaction now tid data d)"
| "apply_operation now (DeleteTransaction tid) d = snd (deleteTransaction now tid d)"

fun run :: "(nat \<times> operation) list \<Rightarrow> db \<Rightarrow> db" where
  "run [] d = d"
| "run ((now, op) # ops) d = run ops (apply_operation now op d)"

fun dated :: "nat \<times> operation \<Rightarrow> bool" where
  "dated (now, UpdateTransaction tid data) = (transaction_date data \<noteq> None)"
| "dated (now, CreateTransaction data) = True"
| "dated (now, DeleteTransaction tid) = True"

text \<open>Whether a create or update request names an existing active account.\<close>

definition references_active_account :: "transaction_data \<Rightarrow> db \<Rightarrow> bool" where
  "references_active_account data d =
     (case account_id data of
        None \<Rightarrow> False
      | Some aid \<Rightarrow> filter (\<lambda>a. a_id a = aid \<and> a_is_active a) (accounts d) \<noteq> [])"

section \<open>A small ledger\<close>

text \<open>
  Two accounts in one group; account 1 has an active income of 1500.50 and a deleted
  movement, account 2 an active expense of 500.
\<close>

definition musteriler :: account_group where
  "musteriler = \<lparr>g_id = 1, g_group_name = ''Musteriler'', g_created_at = 0, g_updated_at = 0\<rparr>"

definition ahmet :: account where
  "ahmet = \<lparr>a_id = 1, a_account_name = ''Ahmet'', a_account_code = Some ''AH001'',
             a_group_id = Some 1, a_phone = None, a_email = None, a_address = None,
             a_tax_number = None, a_tax_office = None, a_balance = 3001 / 2,
             a_account_type = ''customer'', a_is_active = True, a_created_at = 0,
             a_updated_at = 0\<rparr>"

definition tedarik :: account where
  "tedarik = \<lparr>a_id = 2, a_account_name = ''Tedarik'', a_account_code = None,
               a_group_id = None, a_phone = None, a_email = None, a_address = None,
               a_tax_number = None, a_tax_office = None, a_balance = - 500,
               a_account_type = ''supplier'', a_is_active = True, a_created_at = 0,
               a_updated_at = 0\<rparr>"

definition gelir :: transaction where
  "gelir = \<lparr>t_id = 1, t_account_id = 1, t_transaction_type = ''income'', t_amount = 3001 / 2,
             t_description = Some ''Fatura odemesi'', t_reference_number = Some ''REF-1'',
             t_transaction_date = ''2024-01-15'', t_due_date = None, t_payment_method = ''cash'',
             t_status = ''completed'', t_is_active = True, t_created_at = 1, t_updated_at = 1\<rparr>"

definition gider :: transaction where
  "gider = \<lparr>t_id = 2, t_account_id = 2, t_transaction_type = ''expense'', t_amount = 500,
             t_description = None, t_reference_number = None,
             t_transaction_date = ''2024-02-01'', t_due_date = None, t_payment_method = ''cash'',
             t_status = ''completed'', t_is_active = True, t_created_at = 2, t_updated_at = 2\<rparr>"

definition silinmis :: transaction where
  "silinmis = \<lparr>t_id = 3, t_account_id = 1, t_transaction_type = ''payable'', t_amount = 40,
                t_description = None, t_reference_number = None,
                t_transaction_date = ''2024-02-02'', t_due_date = None, t_payment_method = ''check'',
                t_status = ''cancelled'', t_is_active = False, t_created_at = 3, t_updated_at = 4\<rparr>"

definition ledger :: db where
  "ledger = \<lparr>account_groups = [musteriler], accounts = [ahmet, tedarik],
              transactions = [gelir, gider, silinmis], invoices = [], payments = [],
              next_transaction_id = 4\<rparr>"

text \<open>
  Two bodies whose data update movement 1: \<open>artis\<close> raises its amount to 2000.75 and
  keeps account and type, \<open>duzeltme\<close> turns it into an expense of 2000.75 on account 2.
  \<open>tarihsiz\<close> is the data of an update that carries no transaction date.
\<close>

definition tarihsiz :: transaction_data where
  "tarihsiz = \<lparr>account_id = Some 1, transaction_type = Some ''income'', amount = Some 100,
                description = None, reference_number = None, transaction_date = None,
                due_date = None, payment_method = None, status = None\<rparr>"

definition artis :: transaction_body where
  "artis = \<lparr>cari_id = Some 1, islem_tipi = Some ''income'', tutar = Some (8003 / 4),
             islem_tarihi = Some ''2024-01-20'', aciklama = None, referans_no = None,
             vade_tarihi = None, odeme_yontemi = None, durum = None\<rparr>"

definition duzeltme :: transaction_body where
  "duzeltme = \<lparr>cari_id = Some 2, islem_tipi = Some ''expense'', tutar = Some (8003 / 4),
                islem_tarihi = Some ''2024-01-20'', aciklama = None, referans_no = None,
                vade_tarihi = None, odeme_yontemi = None, durum = None\<rparr>"

text \<open>
  Two create requests for account 99, which does not exist: \<open>hayalet\<close> passes the
  field checks, \<open>kayip\<close> has amount 0. \<open>buyuk\<close> is a body with amount 1,000,000,000
  and \<open>sinirda\<close> one with amount 999,999,999.9900000001.
\<close>

definition hayalet :: transaction_data where
  "hayalet = \<lparr>account_id = Some 99, transaction_type = Some ''income'', amount = Some 100,
               description = None, reference_number = None, transaction_date = Some ''2024-03-01'',
               due_date = None, payment_method = None, status = None\<rparr>"

definition kayip :: transaction_data where
  "kayip = \<lparr>account_id = Some 99, transaction_type = Some ''income'', amount = Some 0,
             description = None, reference_number = None, transaction_date = Some ''2024-03-01'',
             due_date = None, payment_method = None, status = None\<rparr>"

definition buyuk :: transaction_body where
  "buyuk = \<lparr>cari_id = Some 1, islem_tipi = Some ''income'', tutar = Some 1000000000,
             islem_tarihi = Some ''2024-03-01'', aciklama = None, referans_no = None,
             vade_tarihi = None, odeme_yontemi = None, durum = None\<rparr>"

definition sinirda :: transaction_body where
  "sinirda = \<lparr>cari_id = Some 1, islem_tipi = Some ''income'',
               tutar = Some (9999999999900000001 / 10000000000),
               islem_tarihi = Some ''2024-03-01'', aciklama = None, referans_no = None,
               vade_tarihi = None, odeme_yontemi = None, durum = None\<rparr>"

text \<open>
  The same accounts with no movement at all, and two account updates for account 1:
  \<open>grupsuz\<close> takes it out of its group, \<open>sifirla\<close> asks for balance 0.
\<close>

definition yeni_defter :: db where
  "yeni_defter = \<lparr>account_groups = [musteriler], accounts = [ahmet, tedarik],
                   transactions = [], invoices = [], payments = [],
                   next_transaction_id = 1\<rparr>"

definition grupsuz :: account_data where
  "grupsuz = \<lparr>account_name = Some ''Ahmet'', account_code = Some ''AH001'', group_id = None,
               phone = None, email = None, address = None, tax_number = None, tax_office = None,
               balance = None, account_type = None\<rparr>"

definition sifirla :: account_data where
  "sifirla = \<lparr>account_name = Some ''Ahmet'', account_code = Some ''AH001'', group_id = Some 1,
               phone = None, email = Some ''ahmet@example.com'', address = None, tax_number = None,
               tax_office = None, balance = Some 0, account_type = Some ''customer''\<rparr>"

text \<open>
  A filter on account 1 and the text "Fatura" with a page size of 10, and a \<open>LIKE\<close> for
  patterns of the form \<open>%term%\<close>: the term occurs in the column value.
\<close>

definition suzgec :: transaction_filters where
  "suzgec = \<lparr>f_cari_id = Some 1, f_islem_tipi = None, f_min_tutar = None, f_max_tutar = None,
              f_baslangic_tarihi = None, f_bitis_tarihi = None, f_aciklama_icinde = Some ''Fatura'',
              f_status = None, f_payment_method = None, f_limit = Some 10, f_offset = None\<rparr>"

fun starts_with :: "string \<Rightarrow> string \<Rightarrow> bool" where
  "starts_with [] s = True"
| "starts_with (p # ps) [] = False"
| "starts_with (p # ps) (c # cs) = (p = c \<and> starts_with ps cs)"

fun occurs_in :: "string \<Rightarrow> string \<Rightarrow> bool" where
  "occurs_in p [] = (p = [])"
| "occurs_in p (c # cs) = (starts_with p (c # cs) \<or> occurs_in p cs)"

definition like_term :: "string \<Rightarrow> string \<Rightarrow> bool" where
  "like_term s pattern = occurs_in (butlast (tl pattern)) s"

section \<open>Basic facts about the operations\<close>

declare bit_length.simps [simp del] digit_count.simps [simp del]

lemmas ledger_defs = ledger_def gelir_def gider_def silinmis_def ahmet_def tedarik_def musteriler_def

lemmas model_evals = createTransaction_def updateTransaction_def deleteTransaction_def
  getTransactionById_def updateAccountBalance_def balanceChange_def Let_def
  falsy_num_def invalid_type_def invalid_amount_def truthy_str_def or_null_def or_else_def

text \<open>Evaluating the conversion to a double on numerals.\<close>

lemma floor_rat_numeral [simp]:
  "\<lfloor>numeral a / numeral b :: rat\<rfloor> = numeral a div numeral b"
  using floor_divide_of_int_eq [of "numeral a" "numeral b", where ?'a = rat] by simp

lemmas double_evals = to_double_def binary_exponent_def round_half_even_def pow2_def Let_def
  bit_length.simps

lemma to_double_bound: "to_double (99999999999 / 100) = 4194303999958057 / 4194304"
  by (simp add: double_evals)

lemma to_double_above_bound:
  "to_double (9999999999900000001 / 10000000000) = 4194303999958057 / 4194304"
  by (simp add: double_evals)

lemma to_double_samples:
  "to_double 1000000000 = 1000000000" "to_double (8003 / 4) = 8003 / 4"
  by (simp_all add: double_evals)

lemma parseInt_samples:
  "parseInt (Suc 0) = Some (Suc 0)" "parseInt 2 = Some 2" "parseInt 10 = Some 10"
  by (simp_all add: parseInt_def double_evals)

lemma transactionData_artis:
  "transactionData artis =
     \<lparr>account_id = Some 1, transaction_type = Some ''income'', amount = Some (8003 / 4),
      description = None, reference_number = None, transaction_date = Some ''2024-01-20'',
      due_date = None, payment_method = Some ''cash'', status = Some ''completed''\<rparr>"
  by (simp add: transactionData_def artis_def parseInt_samples to_double_samples or_null_def
      or_else_def truthy_str_def)

lemma transactionData_duzeltme:
  "transactionData duzeltme =
     \<lparr>account_id = Some 2, transaction_type = Some ''expense'', amount = Some (8003 / 4),
      description = None, reference_number = None, transaction_date = Some ''2024-01-20'',
      due_date = None, payment_method = Some ''cash'', status = Some ''completed''\<rparr>"
  by (simp add: transactionData_def duzeltme_def parseInt_samples to_double_samples or_null_def
      or_else_def truthy_str_def)

lemma transactions_updateAccountBalance [simp]:
  "transactions (updateAccountBalance now a ty amt opn d) = transactions d"
  by (simp add: updateAccountBalance_def)

lemma getTransactionById_error:
  "getTransactionById tid d = Inl e \<Longrightarrow> e = NotFound"
  by (auto simp: getTransactionById_def split: list.splits)

section \<open>The balance column under the ledger operations\<close>

lemma balanceChange_add: "balanceChange ty amt ''add'' = direction ty * amt"
  by (simp add: balanceChange_def direction_def)

lemma balanceChange_subtract: "balanceChange ty amt ''subtract'' = - (direction ty * amt)"
  by (simp add: balanceChange_def direction_def)

lemma balances_updateAccountBalance:
  "balances (updateAccountBalance now aid ty amt opn d) = shift aid (balanceChange ty amt opn) (balances d)"
  by (simp add: balances_def updateAccountBalance_def shift_def)

lemma balances_transactions_update [simp]:
  "balances (d\<lparr>transactions := rows\<rparr>) = balances d"
  by (simp add: balances_def)

lemma shift_shift: "shift aid x (shift aid y bs) = shift aid (y + x) bs"
  by (induction bs) (auto simp: shift_def)

lemma balances_updateTransaction:
  assumes "getTransactionById tid d = Inr old"
    and "fst (updateTransaction now tid data d) = Inr r"
  shows "balances (snd (updateTransaction now tid data d)) =
           shift (the (account_id data))
             (direction (the (transaction_type data)) * the (amount data))
             (shift (t_account_id old) (- (direction (t_transaction_type old) * t_amount old)) (balances d))"
  using assms
  by (auto simp: updateTransaction_def Let_def balances_updateAccountBalance
        balanceChange_add balanceChange_subtract split: if_splits option.splits)

section \<open>Reconciliation is preserved\<close>

lemma ledger_sum_contribution: "ledger_sum rows aid = sum_list (map (contribution aid) rows)"
  unfolding ledger_sum_def by (induction rows) (simp_all add: contribution_def)

lemma ledger_sum_append:
  "ledger_sum (rows @ [row]) aid = ledger_sum rows aid + contribution aid row"
  by (simp add: ledger_sum_contribution)

lemma sum_list_replace_one:
  fixes g :: "transaction \<Rightarrow> rat"
  assumes "old \<in> set rows" and "distinct (map t_id rows)"
    and "\<And>t. t \<in> set rows \<Longrightarrow> P t \<longleftrightarrow> t = old"
  shows "sum_list (map g (map (\<lambda>t. if P t then f t else t) rows)) = sum_list (map g rows) - g old + g (f old)"
  using assms
proof (induction rows)
  case Nil
  then show ?case by simp
next
  case (Cons t rows)
  show ?case
  proof (cases "t = old")
    case True
    with Cons.prems(2) have notin: "old \<notin> set rows" by auto
    have "\<And>u. u \<in> set rows \<Longrightarrow> \<not> P u"
      using Cons.prems(3) notin by auto
    then have "map (\<lambda>t. if P t then f t else t) rows = rows"
      by (simp add: map_idI)
    moreover have "P t" using Cons.prems(3) True by simp
    ultimately show ?thesis using True by simp
  next
    case False
    then have "old \<in> set rows" using Cons.prems(1) by simp
    moreover have "distinct (map t_id rows)" using Cons.prems(2) by simp
    moreover have "\<And>u. u \<in> set rows \<Longrightarrow> P u \<longleftrightarrow> u = old" using Cons.prems(3) by simp
    ultimately have IH: "sum_list (map g (map (\<lambda>t. if P t then f t else t) rows)) = sum_list (map g rows) - g old + g (f old)"
      by (rule Cons.IH)
    have "\<not> P t" using Cons.prems(3) False by simp
    then show ?thesis using IH by simp
  qed
qed

lemma getTransactionById_Inr:
  assumes "getTransactionById tid d = Inr old"
  shows "old \<in> set (transactions d) \<and> t_id old = tid \<and> t_is_active old"
proof -
  from assms obtain rest where "filter (\<lambda>t. t_id t = tid \<and> t_is_active t) (transactions d) = old # rest"
    by (auto simp: getTransactionById_def split: list.splits)
  then have "old \<in> set (filter (\<lambda>t. t_id t = tid \<and> t_is_active t) (transactions d))" by simp
  then show ?thesis by simp
qed

lemma distinct_ids_unique:
  "distinct (map t_id rows) \<Longrightarrow> old \<in> set rows \<Longrightarrow> t \<in> set rows \<Longrightarrow> t_id t = t_id old \<Longrightarrow> t = old"
  by (meson distinct_map inj_onD)

lemma list_all_adjust:
  fixes accts :: "account list"
  assumes "list_all (\<lambda>a. a_balance a = s) (filter (\<lambda>a. a_id a = i) accts)"
    and "s' = s + (if i = aid then x else 0)"
  shows "list_all (\<lambda>a. a_balance a = s')
           (filter (\<lambda>a. a_id a = i)
              (map (\<lambda>a. if a_id a = aid then a\<lparr>a_balance := a_balance a + x, a_updated_at := now\<rparr> else a) accts))"
proof -
  define adj :: "account \<Rightarrow> account"
    where "adj = (\<lambda>a. if a_id a = aid then a\<lparr>a_balance := a_balance a + x, a_updated_at := now\<rparr> else a)"
  have same_id: "a_id (adj a) = a_id a" for a
    by (simp add: adj_def)
  have new_balance: "a_balance (adj a) = a_balance a + (if a_id a = aid then x else 0)" for a
    by (simp add: adj_def)
  have rows: "filter (\<lambda>a. a_id a = i) (map adj accts) = map adj (filter (\<lambda>a. a_id a = i) accts)"
    by (induction accts) (simp_all add: same_id)
  have "a_balance (adj a) = s'" if "a \<in> set accts" and "a_id a = i" for a
  proof -
    have "a_balance a = s" using assms(1) that by (simp add: list_all_iff)
    then show ?thesis using that(2) assms(2) by (simp add: new_balance)
  qed
  then have "list_all (\<lambda>a. a_balance a = s') (filter (\<lambda>a. a_id a = i) (map adj accts))"
    unfolding rows by (simp add: list_all_iff)
  then show ?thesis unfolding adj_def .
qed

lemma reconciled_create:
  assumes "reconciled_account d i"
  shows "reconciled_account (snd (createTransaction now data d)) i"
proof (cases "snd (createTransaction now data d) = d")
  case True
  then show ?thesis using assms by simp
next
  case False
  define aid where "aid = the (account_id data)"
  define ty where "ty = the (transaction_type data)"
  define amt where "amt = the (amount data)"
  define row where "row =
     \<lparr>t_id = next_transaction_id d, t_account_id = aid, t_transaction_type = ty, t_amount = amt,
      t_description = description data, t_reference_number = reference_number data,
      t_transaction_date = the (transaction_date data), t_due_date = due_date data,
      t_payment_method = (case payment_method data of None \<Rightarrow> ''cash'' | Some m \<Rightarrow> m),
      t_status = (case status data of None \<Rightarrow> ''completed'' | Some s \<Rightarrow> s),
      t_is_active = True, t_created_at = now, t_updated_at = now\<rparr>"
  have row: "t_account_id row = aid" "t_transaction_type row = ty" "t_amount row = amt" "t_is_active row"
    by (simp_all add: row_def)
  have res: "snd (createTransaction now data d) =
       updateAccountBalance now aid ty amt ''add''
         (d\<lparr>transactions := transactions d @ [row], next_transaction_id := Suc (next_transaction_id d)\<rparr>)"
    using False
    by (simp add: createTransaction_def Let_def aid_def ty_def amt_def row_def split: if_splits)
  have "list_all (\<lambda>a. a_balance a = ledger_sum (transactions d @ [row]) i)
          (filter (\<lambda>a. a_id a = i)
             (map (\<lambda>a. if a_id a = aid then a\<lparr>a_balance := a_balance a + balanceChange ty amt ''add'', a_updated_at := now\<rparr> else a) (accounts d)))"
  proof (rule list_all_adjust)
    show "list_all (\<lambda>a. a_balance a = ledger_sum (transactions d) i) (filter (\<lambda>a. a_id a = i) (accounts d))"
      using assms by (simp add: reconciled_account_def)
    show "ledger_sum (transactions d @ [row]) i =
            ledger_sum (transactions d) i + (if i = aid then balanceChange ty amt ''add'' else 0)"
      using row by (simp add: ledger_sum_append contribution_def balanceChange_add)
  qed
  then show ?thesis
    by (simp add: res reconciled_account_def updateAccountBalance_def)
qed

lemma contribution_active:
  "t_is_active m \<Longrightarrow> contribution i m = (if i = t_account_id m then direction (t_transaction_type m) * t_amount m else 0)"
  by (auto simp: contribution_def)

lemma reconciled_delete:
  assumes pk: "primary_key d" and rec: "reconciled_account d i"
  shows "reconciled_account (snd (deleteTransaction now tid d)) i"
proof (cases "getTransactionById tid d")
  case (Inl e)
  then show ?thesis using rec by (simp add: deleteTransaction_def)
next
  case (Inr old)
  note old = getTransactionById_Inr [OF Inr]
  define deact :: "transaction \<Rightarrow> transaction" where "deact t = t\<lparr>t_is_active := False, t_updated_at := now\<rparr>" for t
  define rows' where "rows' = map (\<lambda>t. if t_id t = tid then deact t else t) (transactions d)"
  have dist: "distinct (map t_id (transactions d))" using pk by (simp add: primary_key_def)
  have "filter (\<lambda>t. t_id t = tid) (transactions d) \<noteq> []"
    using old by (auto simp: filter_empty_conv)
  then have res: "snd (deleteTransaction now tid d) =
      updateAccountBalance now (t_account_id old) (t_transaction_type old) (t_amount old) ''subtract''
        (d\<lparr>transactions := rows'\<rparr>)"
    unfolding rows'_def deact_def by (simp add: deleteTransaction_def Inr Let_def)
  have sum: "ledger_sum rows' i = ledger_sum (transactions d) i - contribution i old + contribution i (deact old)"
    unfolding ledger_sum_contribution rows'_def
  proof (rule sum_list_replace_one)
    show "old \<in> set (transactions d)" using old by simp
    show "distinct (map t_id (transactions d))" by (rule dist)
    show "\<And>t. t \<in> set (transactions d) \<Longrightarrow> (t_id t = tid) = (t = old)"
      using distinct_ids_unique [OF dist] old by auto
  qed
  have "list_all (\<lambda>a. a_balance a = ledger_sum rows' i)
          (filter (\<lambda>a. a_id a = i)
             (map (\<lambda>a. if a_id a = t_account_id old
                    then a\<lparr>a_balance := a_balance a + balanceChange (t_transaction_type old) (t_amount old) ''subtract'',
                           a_updated_at := now\<rparr> else a) (accounts d)))"
  proof (rule list_all_adjust)
    show "list_all (\<lambda>a. a_balance a = ledger_sum (transactions d) i) (filter (\<lambda>a. a_id a = i) (accounts d))"
      using rec by (simp add: reconciled_account_def)
    show "ledger_sum rows' i = ledger_sum (transactions d) i +
            (if i = t_account_id old then balanceChange (t_transaction_type old) (t_amount old) ''subtract'' else 0)"
      using old by (simp add: sum contribution_active balanceChange_subtract) (simp add: contribution_def deact_def)
  qed
  then show ?thesis
    by (simp add: res reconciled_account_def updateAccountBalance_def)
qed

lemma reconciled_update:
  assumes pk: "primary_key d" and rec: "reconciled_account d i" and date: "transaction_date data = Some dt"
  shows "reconciled_account (snd (updateTransaction now tid data d)) i"
proof (cases "getTransactionById tid d")
  case (Inl e)
  then show ?thesis using rec by (simp add: updateTransaction_def)
next
  case (Inr old)
  note old = getTransactionById_Inr [OF Inr]
  show ?thesis
  proof (cases "snd (updateTransaction now tid data d) = d")
    case True
    then show ?thesis using rec by simp
  next
    case False
    define Y where "Y = the (account_id data)"
    define ty where "ty = the (transaction_type data)"
    define amt where "amt = the (amount data)"
    define upd :: "transaction \<Rightarrow> transaction" where "upd t = t\<lparr>t_account_id := Y, t_transaction_type := ty, t_amount := amt,
        t_description := or_null (description data),
        t_reference_number := or_null (reference_number data),
        t_transaction_date := dt,
        t_due_date := or_null (due_date data),
        t_payment_method := or_else (payment_method data) (t_payment_method old),
        t_status := or_else (status data) (t_status old),
        t_updated_at := now\<rparr>" for t
    define rows' where "rows' = map (\<lambda>t. if t_id t = tid \<and> t_is_active t then upd t else t) (transactions d)"
    define X where "X = t_account_id old"
    define x where "x = balanceChange (t_transaction_type old) (t_amount old) ''subtract''"
    define y where "y = balanceChange ty amt ''add''"
    have dist: "distinct (map t_id (transactions d))" using pk by (simp add: primary_key_def)
    have ne: "filter (\<lambda>t. t_id t = tid \<and> t_is_active t) (transactions d) \<noteq> []"
      using old by (auto simp: filter_empty_conv)
    have res: "snd (updateTransaction now tid data d) =
        updateAccountBalance now Y ty amt ''add''
          ((updateAccountBalance now X (t_transaction_type old) (t_amount old) ''subtract'' d)
             \<lparr>transactions := rows'\<rparr>)"
      using False ne unfolding rows'_def upd_def Y_def ty_def amt_def X_def
      by (simp add: updateTransaction_def Inr Let_def date split: if_splits)
    have sum: "ledger_sum rows' i = ledger_sum (transactions d) i - contribution i old + contribution i (upd old)"
      unfolding ledger_sum_contribution rows'_def
    proof (rule sum_list_replace_one)
      show "old \<in> set (transactions d)" using old by simp
      show "distinct (map t_id (transactions d))" by (rule dist)
      show "\<And>t. t \<in> set (transactions d) \<Longrightarrow> (t_id t = tid \<and> t_is_active t) = (t = old)"
        using distinct_ids_unique [OF dist] old by auto
    qed
    have upd_old: "contribution i (upd old) = (if i = Y then y else 0)"
      using old by (auto simp: contribution_def upd_def y_def balanceChange_add)
    have old_c: "contribution i old = (if i = X then - x else 0)"
      using old by (simp add: contribution_active X_def x_def balanceChange_subtract)
    have step1: "list_all (\<lambda>a. a_balance a = ledger_sum (transactions d) i + (if i = X then x else 0))
            (filter (\<lambda>a. a_id a = i)
               (map (\<lambda>a. if a_id a = X then a\<lparr>a_balance := a_balance a + x, a_updated_at := now\<rparr> else a) (accounts d)))"
    proof (rule list_all_adjust)
      show "list_all (\<lambda>a. a_balance a = ledger_sum (transactions d) i) (filter (\<lambda>a. a_id a = i) (accounts d))"
        using rec by (simp add: reconciled_account_def)
    qed simp
    have step2: "list_all (\<lambda>a. a_balance a = ledger_sum rows' i)
            (filter (\<lambda>a. a_id a = i)
               (map (\<lambda>a. if a_id a = Y then a\<lparr>a_balance := a_balance a + y, a_updated_at := now\<rparr> else a)
                  (map (\<lambda>a. if a_id a = X then a\<lparr>a_balance := a_balance a + x, a_updated_at := now\<rparr> else a) (accounts d))))"
    proof (rule list_all_adjust [OF step1])
      show "ledger_sum rows' i = ledger_sum (transactions d) i + (if i = X then x else 0) + (if i = Y then y else 0)"
        by (simp add: sum upd_old old_c)
    qed
    then show ?thesis
      unfolding x_def y_def by (simp add: res reconciled_account_def updateAccountBalance_def)
  qed
qed

lemma primary_key_create: "primary_key d \<Longrightarrow> primary_key (snd (createTransaction now data d))"
  by (auto simp: createTransaction_def Let_def primary_key_def updateAccountBalance_def list_all_iff
        split: if_splits)

lemma primary_key_delete: "primary_key d \<Longrightarrow> primary_key (snd (deleteTransaction now tid d))"
proof -
  have "map t_id (map (\<lambda>t. if t_id t = tid then t\<lparr>t_is_active := False, t_updated_at := now\<rparr> else t) rows) = map t_id rows" for rows :: "transaction list"
    by (induction rows) auto
  then show "primary_key d \<Longrightarrow> primary_key (snd (deleteTransaction now tid d))"
    by (auto simp: deleteTransaction_def Let_def primary_key_def updateAccountBalance_def list_all_iff
        simp del: map_map split: sum.splits)
qed


lemma primary_key_update: "primary_key d \<Longrightarrow> primary_key (snd (updateTransaction now tid data d))"
proof -
  have ids: "map t_id (map (\<lambda>t. if t_id t = tid \<and> t_is_active t then f t else t) rows) = map t_id rows"
    if "\<And>t. t_id (f t) = t_id t" for rows :: "transaction list" and f
    using that by (induction rows) auto
  show "primary_key d \<Longrightarrow> primary_key (snd (updateTransaction now tid data d))"
    by (auto simp: updateTransaction_def Let_def primary_key_def updateAccountBalance_def list_all_iff ids
        simp del: map_map split: sum.splits option.splits)
qed

lemma apply_operation_invariant:
  assumes "primary_key d" and "reconciled_account d i" and "dated (now, op)"
  shows "primary_key (apply_operation now op d) \<and> reconciled_account (apply_operation now op d) i"
proof (cases op)
  case (CreateTransaction data)
  then show ?thesis
    using assms by (simp add: primary_key_create reconciled_create)
next
  case (UpdateTransaction tid data)
  with assms(3) obtain dt where "transaction_date data = Some dt" by auto
  then show ?thesis
    using assms(1,2) UpdateTransaction by (simp add: primary_key_update reconciled_update)
next
  case (DeleteTransaction tid)
  then show ?thesis
    using assms by (simp add: primary_key_delete reconciled_delete)
qed

text \<open>
  Reconciliation of one account is kept by every sequence of creates, deletes and dated
  updates, whatever the state of the other accounts. The ids of the movements are a
  primary key.
\<close>

theorem reconciliation_preserved:
  "primary_key d \<Longrightarrow> list_all dated ops \<Longrightarrow> reconciled_account d i \<Longrightarrow>
   reconciled_account (run ops d) i"
proof (induction ops arbitrary: d)
  case Nil
  then show ?case by simp
next
  case (Cons r ops)
  obtain now op where r: "r = (now, op)" by (cases r)
  have "dated (now, op)" and rest: "list_all dated ops"
    using Cons.prems(2) r by simp_all
  then have "primary_key (apply_operation now op d)" and "reconciled_account (apply_operation now op d) i"
    using apply_operation_invariant [OF Cons.prems(1) Cons.prems(3), of now op] by simp_all
  then have "reconciled_account (run ops (apply_operation now op d)) i"
    using rest by (intro Cons.IH)
  then show ?case by (simp add: r)
qed

lemma primary_key_ledger: "primary_key ledger"
  by (simp add: primary_key_def ledger_defs)

text \<open>
  Claim C1 (balance reconciliation invariant) is not kept by \<open>updateTransaction\<close>: the
  sample ledger has a primary key and both its accounts are reconciled; an update of
  movement 1 that carries no transaction date passes the checks of the update, which has
  no check of the date, reverses the income of 1500.50 on account 1 and then fails, so
  that the balance of account 1 is 0 while its active movements still sum to 1500.50.
  \<open>createTransaction\<close> refuses the same data and changes nothing.
\<close>

theorem update_without_date_breaks_reconciliation:
  "primary_key ledger \<and> reconciled_account ledger 1 \<and> reconciled_account ledger 2 \<and>
   fst (updateTransaction 9 1 tarihsiz ledger) = Inl StorageError \<and>
   balances (snd (updateTransaction 9 1 tarihsiz ledger)) = [(1, 0), (2, - 500)] \<and>
   ledger_sum (transactions (snd (updateTransaction 9 1 tarihsiz ledger))) 1 = 3001 / 2 \<and>
   \<not> reconciled_account (snd (updateTransaction 9 1 tarihsiz ledger)) 1 \<and>
   createTransaction 9 tarihsiz ledger = (Inl (ValidationError ''transaction_date''), ledger)"
proof -
  have res: "updateTransaction 9 1 tarihsiz ledger =
      (Inl StorageError, updateAccountBalance 9 1 ''income'' (3001 / 2) ''subtract'' ledger)"
    by (simp add: updateTransaction_def getTransactionById_def tarihsiz_def falsy_num_def
        invalid_type_def invalid_amount_def truthy_str_def Let_def ledger_defs)
  have sums: "ledger_sum (transactions ledger) 1 = 3001 / 2"
    by (simp add: ledger_sum_def direction_def ledger_defs)
  have bal: "balances (updateAccountBalance 9 1 ''income'' (3001 / 2) ''subtract'' ledger) = [(1, 0), (2, - 500)]"
    by (simp add: balances_def updateAccountBalance_def balanceChange_def ledger_defs)
  have broken: "\<not> reconciled_account (updateAccountBalance 9 1 ''income'' (3001 / 2) ''subtract'' ledger) 1"
    by (simp add: reconciled_account_def ledger_sum_def direction_def updateAccountBalance_def
        balanceChange_def ledger_defs)
  have start: "reconciled_account ledger 1" "reconciled_account ledger 2"
    by (simp_all add: reconciled_account_def ledger_sum_def direction_def ledger_defs)
  have refused: "createTransaction 9 tarihsiz ledger = (Inl (ValidationError ''transaction_date''), ledger)"
    by (simp add: createTransaction_def tarihsiz_def falsy_num_def invalid_type_def
        invalid_amount_def truthy_str_def)
  show ?thesis
    unfolding res fst_conv snd_conv
    using primary_key_ledger start bal broken refused sums by simp
qed

section \<open>The sign rule and updates\<close>

lemma ledger_first_movement: "getTransactionById 1 ledger = Inr gelir"
  by (simp add: getTransactionById_def ledger_defs)

lemma artis_accepted:
  "fst (updateTransaction 9 1 (transactionData artis) ledger) = Inr (1, 1, ''income'', 8003 / 4)"
  by (simp add: transactionData_artis model_evals ledger_defs)

text \<open>
  Claim C3 (directional sign rule). \<open>updateAccountBalance\<close> changes the balance of the
  target account by \<open>+amount\<close> for an \<open>add\<close> of an income or receivable, by
  \<open>-amount\<close> for an \<open>add\<close> of an expense or payable, and by the negated value for a
  \<open>subtract\<close>; every other account keeps its balance. Consequently a successful update
  of a movement that keeps its account and type and changes its amount from \<open>A\<close> to
  \<open>B\<close> changes that account's balance by \<open>direction(type) * (B - A)\<close>.
\<close>

theorem directional_sign_rule:
  "(ty = ''income'' \<or> ty = ''receivable'' \<longrightarrow>
      balances (updateAccountBalance now aid ty amt ''add'' d) = shift aid amt (balances d) \<and>
      balances (updateAccountBalance now aid ty amt ''subtract'' d) = shift aid (- amt) (balances d)) \<and>
   (ty = ''expense'' \<or> ty = ''payable'' \<longrightarrow>
      balances (updateAccountBalance now aid ty amt ''add'' d) = shift aid (- amt) (balances d) \<and>
      balances (updateAccountBalance now aid ty amt ''subtract'' d) = shift aid amt (balances d)) \<and>
   (getTransactionById tid d = Inr old \<and>
    account_id data = Some (t_account_id old) \<and>
    transaction_type data = Some (t_transaction_type old) \<and>
    amount data = Some B \<and>
    fst (updateTransaction now tid data d) = Inr r \<longrightarrow>
      balances (snd (updateTransaction now tid data d)) =
        shift (t_account_id old) (direction (t_transaction_type old) * (B - t_amount old)) (balances d))"
proof (intro conjI impI)
  assume "ty = ''income'' \<or> ty = ''receivable''"
  then show "balances (updateAccountBalance now aid ty amt ''add'' d) = shift aid amt (balances d)"
    by (auto simp: balances_updateAccountBalance balanceChange_def)
next
  assume "ty = ''income'' \<or> ty = ''receivable''"
  then show "balances (updateAccountBalance now aid ty amt ''subtract'' d) = shift aid (- amt) (balances d)"
    by (auto simp: balances_updateAccountBalance balanceChange_def)
next
  assume "ty = ''expense'' \<or> ty = ''payable''"
  then show "balances (updateAccountBalance now aid ty amt ''add'' d) = shift aid (- amt) (balances d)"
    by (auto simp: balances_updateAccountBalance balanceChange_def)
next
  assume "ty = ''expense'' \<or> ty = ''payable''"
  then show "balances (updateAccountBalance now aid ty amt ''subtract'' d) = shift aid amt (balances d)"
    by (auto simp: balances_updateAccountBalance balanceChange_def)
next
  assume h: "getTransactionById tid d = Inr old \<and>
    account_id data = Some (t_account_id old) \<and>
    transaction_type data = Some (t_transaction_type old) \<and>
    amount data = Some B \<and>
    fst (updateTransaction now tid data d) = Inr r"
  then have "balances (snd (updateTransaction now tid data d)) =
      shift (t_account_id old) (direction (t_transaction_type old) * B)
        (shift (t_account_id old) (- (direction (t_transaction_type old) * t_amount old)) (balances d))"
    using balances_updateTransaction [of tid d old now data r] by simp
  then show "balances (snd (updateTransaction now tid data d)) =
        shift (t_account_id old) (direction (t_transaction_type old) * (B - t_amount old)) (balances d)"
    by (simp add: shift_shift algebra_simps)
qed

theorem directional_sign_rule_witness:
  "balances (updateAccountBalance 9 2 ''payable'' 40 ''add'' ledger) = [(1, 3001 / 2), (2, - 540)] \<and>
   balances (updateAccountBalance 9 2 ''payable'' 40 ''subtract'' ledger) = [(1, 3001 / 2), (2, - 460)] \<and>
   balances (snd (updateTransaction 9 1 (transactionData artis) ledger)) = [(1, 8003 / 4), (2, - 500)]"
proof -
  have data: "account_id (transactionData artis) = Some (t_account_id gelir)"
      "transaction_type (transactionData artis) = Some (t_transaction_type gelir)"
      "amount (transactionData artis) = Some (8003 / 4)"
    by (simp_all add: transactionData_artis gelir_def)
  have bal: "balances ledger = [(1, 3001 / 2), (2, - 500)]"
    by (simp add: balances_def ledger_defs)
  have "t_account_id gelir = 1" "t_transaction_type gelir = ''income''" "t_amount gelir = 3001 / 2"
    by (simp_all add: gelir_def)
  then show ?thesis
    using directional_sign_rule [where ty = "''payable''" and now = 9 and aid = 2 and amt = 40
        and d = ledger and tid = 1 and old = gelir and data = "transactionData artis"
        and B = "8003 / 4" and r = "(1, 1, ''income'', 8003 / 4)"]
      ledger_first_movement artis_accepted data
    by (simp add: bal shift_def direction_def)
qed

text \<open>
  Claim C2 (cross-account move on update). For an existing active movement on account
  \<open>X\<close> and a valid update request naming account \<open>Y\<close> (present, active, possibly
  \<open>X\<close> itself), a valid type, a positive amount, a date and no reference number in use
  by another active movement, the update succeeds, subtracts
  \<open>direction(old.type) * old.amount\<close> from the balance of \<open>X\<close> and adds
  \<open>direction(new.type) * new.amount\<close> to the balance of \<open>Y\<close>.
\<close>

theorem cross_account_move:
  assumes "getTransactionById tid d = Inr old"
    and "t_account_id old = X"
    and "account_id data = Some Y" and "Y \<noteq> 0"
    and "references_active_account data d"
    and "transaction_type data = Some new_type"
    and "new_type \<in> set [''income'', ''expense'', ''receivable'', ''payable'']"
    and "amount data = Some new_amount" and "new_amount > 0"
    and "transaction_date data = Some new_date"
    and "truthy_str (reference_number data) \<longrightarrow>
           filter (\<lambda>t. t_reference_number t = reference_number data \<and> t_id t \<noteq> tid \<and> t_is_active t)
             (transactions d) = []"
  shows "fst (updateTransaction now tid data d) = Inr (tid, Y, new_type, new_amount) \<and>
         balances (snd (updateTransaction now tid data d)) =
           shift Y (direction new_type * new_amount)
             (shift X (- (direction (t_transaction_type old) * t_amount old)) (balances d))"
proof -
  have ne: "filter (\<lambda>t. t_id t = tid \<and> t_is_active t) (transactions d) \<noteq> []"
    using getTransactionById_Inr [OF assms(1)] by (auto simp: filter_empty_conv)
  have ok: "fst (updateTransaction now tid data d) = Inr (tid, Y, new_type, new_amount)"
    using assms ne
    by (auto simp: updateTransaction_def Let_def falsy_num_def invalid_type_def invalid_amount_def
          references_active_account_def)
  show ?thesis
    using ok balances_updateTransaction [OF assms(1) ok] assms(2,3,6,8) by simp
qed

theorem cross_account_move_witness:
  "fst (updateTransaction 11 1 (transactionData duzeltme) ledger) = Inr (1, 2, ''expense'', 8003 / 4) \<and>
   balances ledger = [(1, 3001 / 2), (2, - 500)] \<and>
   balances (snd (updateTransaction 11 1 (transactionData duzeltme) ledger)) = [(1, 0), (2, - (10003 / 4))]"
proof -
  have bal: "balances ledger = [(1, 3001 / 2), (2, - 500)]"
    by (simp add: balances_def ledger_defs)
  have old: "t_account_id gelir = 1" "t_transaction_type gelir = ''income''" "t_amount gelir = 3001 / 2"
    by (simp_all add: gelir_def)
  have "fst (updateTransaction 11 1 (transactionData duzeltme) ledger) = Inr (1, 2, ''expense'', 8003 / 4) \<and>
        balances (snd (updateTransaction 11 1 (transactionData duzeltme) ledger)) =
          shift 2 (direction ''expense'' * (8003 / 4))
            (shift 1 (- (direction (t_transaction_type gelir) * t_amount gelir)) (balances ledger))"
  proof (rule cross_account_move [where new_date = "''2024-01-20''"])
    show "getTransactionById 1 ledger = Inr gelir" by (rule ledger_first_movement)
    show "t_account_id gelir = 1" by (simp add: gelir_def)
    show "references_active_account (transactionData duzeltme) ledger"
      by (simp add: references_active_account_def transactionData_duzeltme ledger_defs)
  qed (simp_all add: transactionData_duzeltme truthy_str_def)
  then show ?thesis
    by (simp add: bal old shift_def direction_def)
qed


section \<open>Deleting a movement twice\<close>

lemma no_active_after_deactivate:
  "filter (\<lambda>t. t_id t = tid \<and> t_is_active t)
     (map (\<lambda>t. if t_id t = tid then t\<lparr>t_is_active := False, t_updated_at := now\<rparr> else t) rows) = []"
  by (induction rows) auto

lemma getTransactionById_after_delete:
  "getTransactionById tid (snd (deleteTransaction now tid d)) = Inl NotFound"
proof (cases "getTransactionById tid d")
  case (Inl e)
  then show ?thesis
    using getTransactionById_error [OF Inl] by (simp add: deleteTransaction_def)
next
  case (Inr row)
  then show ?thesis
    by (simp add: deleteTransaction_def Let_def getTransactionById_def no_active_after_deactivate)
qed

text \<open>
  Claim C7 (idempotence of reversal). Whatever the first \<open>deleteTransaction\<close> of a
  movement did, a second \<open>deleteTransaction\<close> of the same id fails with \<open>NotFound\<close>
  and returns the state it was given: no row and no balance changes, so the reversal
  stays applied exactly once.
\<close>

theorem delete_twice_not_found:
  "fst (deleteTransaction now2 tid (snd (deleteTransaction now1 tid d))) = Inl NotFound \<and>
   snd (deleteTransaction now2 tid (snd (deleteTransaction now1 tid d))) = snd (deleteTransaction now1 tid d)"
  using getTransactionById_after_delete [of tid now1 d]
  by (simp add: deleteTransaction_def)

theorem delete_twice_not_found_witness:
  "fst (deleteTransaction 5 1 ledger) = Inr () \<and>
   balances (snd (deleteTransaction 5 1 ledger)) = [(1, 0), (2, - 500)] \<and>
   fst (deleteTransaction 6 1 (snd (deleteTransaction 5 1 ledger))) = Inl NotFound \<and>
   balances (snd (deleteTransaction 6 1 (snd (deleteTransaction 5 1 ledger)))) = [(1, 0), (2, - 500)]"
proof -
  have first: "fst (deleteTransaction 5 1 ledger) = Inr ()"
    by (simp add: deleteTransaction_def getTransactionById_def Let_def ledger_defs)
  have bal: "balances (snd (deleteTransaction 5 1 ledger)) = [(1, 0), (2, - 500)]"
    by (simp add: deleteTransaction_def getTransactionById_def Let_def ledger_defs
          balances_def updateAccountBalance_def balanceChange_def)
  show ?thesis
    using delete_twice_not_found [of 6 1 5 ledger] first bal by simp
qed




section \<open>Creating a movement\<close>

text \<open>
  Claim C4 (create on a missing account). A create request whose account id names no
  existing active account fails, inserts no row and changes no balance: the state is
  returned as it was. The checks run in the order of the source, so the error is
  \<open>AccountNotFound\<close> for every request that reaches the account lookup, that is, that
  passes the four field checks before it (account id, type, amount, date); a request that
  fails one of them is refused with the error of the first such check.
\<close>

theorem create_missing_account:
  assumes "\<not> references_active_account data d"
  shows "createTransaction now data d =
           (Inl (if falsy_num (account_id data) then ValidationError ''account_id''
                 else if invalid_type (transaction_type data) then ValidationError ''transaction_type''
                 else if invalid_amount (amount data) then ValidationError ''amount''
                 else if \<not> truthy_str (transaction_date data) then ValidationError ''transaction_date''
                 else AccountNotFound),
            d)"
proof (cases "account_id data")
  case None
  then show ?thesis by (simp add: createTransaction_def falsy_num_def)
next
  case (Some aid)
  then have "filter (\<lambda>a. a_id a = the (account_id data) \<and> a_is_active a) (accounts d) = []"
    using assms by (simp add: references_active_account_def)
  then show ?thesis by (simp add: createTransaction_def)
qed

theorem create_missing_account_witness:
  "\<not> references_active_account hayalet ledger \<and>
   createTransaction 10 hayalet ledger = (Inl AccountNotFound, ledger) \<and>
   \<not> references_active_account kayip ledger \<and>
   createTransaction 10 kayip ledger = (Inl (ValidationError ''amount''), ledger)"
proof -
  have not_there: "\<not> references_active_account hayalet ledger" "\<not> references_active_account kayip ledger"
    by (simp_all add: references_active_account_def hayalet_def kayip_def ledger_defs)
  have "\<not> falsy_num (account_id hayalet)" "\<not> invalid_type (transaction_type hayalet)"
      "\<not> invalid_amount (amount hayalet)" "truthy_str (transaction_date hayalet)"
      "\<not> falsy_num (account_id kayip)" "\<not> invalid_type (transaction_type kayip)"
      "invalid_amount (amount kayip)"
    by (simp_all add: hayalet_def kayip_def falsy_num_def invalid_type_def invalid_amount_def truthy_str_def)
  then show ?thesis
    using create_missing_account [OF not_there(1), of 10] create_missing_account [OF not_there(2), of 10]
      not_there
    by simp
qed

text \<open>
  Claim C8 as stated does not hold: the amount 999,999,999.9900000001 exceeds the bound,
  but as a double it is the double of the bound itself, 999999999.9900000095..., which is
  not greater than itself; the handler answers 201, the row is inserted and the balance of
  account 1 grows.
\<close>

theorem create_amount_above_bound_counterexample:
  "the (tutar sinirda) > 99999999999 / 100 \<and>
   fst (transactionController_createTransaction 10 sinirda ledger) =
     (201, Inr (4, 1, ''income'', 4194303999958057 / 4194304)) \<and>
   length (transactions (snd (transactionController_createTransaction 10 sinirda ledger))) = 4 \<and>
   balances (snd (transactionController_createTransaction 10 sinirda ledger)) =
     [(1, 3001 / 2 + 4194303999958057 / 4194304), (2, - 500)]"
proof -
  have data: "transactionData sinirda =
     \<lparr>account_id = Some 1, transaction_type = Some ''income'',
      amount = Some (4194303999958057 / 4194304),
      description = None, reference_number = None, transaction_date = Some ''2024-03-01'',
      due_date = None, payment_method = Some ''cash'', status = Some ''completed''\<rparr>"
    by (simp add: transactionData_def sinirda_def parseInt_samples to_double_above_bound or_null_def
        or_else_def truthy_str_def)
  have handler: "transactionController_createTransaction 10 sinirda ledger =
      (case createTransaction 10 (transactionData sinirda) ledger of
         (Inr data, d') \<Rightarrow> ((201, Inr data), d')
       | (Inl e, d') \<Rightarrow> ((400, Inl e), d'))"
    by (simp add: transactionController_createTransaction_def sinirda_def falsy_num_def
        invalid_type_def invalid_amount_def truthy_str_def dateRegex_test_def is_digit_def
        to_double_above_bound to_double_bound)
  have above: "the (tutar sinirda) > 99999999999 / 100"
    by (simp add: sinirda_def)
  have created: "fst (transactionController_createTransaction 10 sinirda ledger) =
       (201, Inr (4, 1, ''income'', 4194303999958057 / 4194304)) \<and>
     length (transactions (snd (transactionController_createTransaction 10 sinirda ledger))) = 4 \<and>
     balances (snd (transactionController_createTransaction 10 sinirda ledger)) =
       [(1, 3001 / 2 + 4194303999958057 / 4194304), (2, - 500)]"
    unfolding handler data by (simp add: model_evals ledger_defs balances_def)
  show ?thesis
    using above created by blast
qed

text \<open>
  Claim C8 (amount upper bound on create), amended. A create request whose amount, as the
  double that the handler compares, exceeds the double of 999999999.99 is answered by the
  create handler with status 400 and a validation error (that of the first failing check),
  and the state is returned as it was: no row is inserted and no balance changes.
\<close>

theorem create_amount_upper_bound:
  assumes "tutar body = Some a" and "to_double a > to_double (99999999999 / 100)"
  shows "transactionController_createTransaction now body d =
           ((400, Inl (ValidationError
              (if falsy_num (cari_id body) then ''cari_id''
               else if invalid_type (islem_tipi body) then ''islem_tipi''
               else if invalid_amount (Some (to_double a)) then ''tutar''
               else if \<not> truthy_str (islem_tarihi body) \<or> \<not> dateRegex_test (the (islem_tarihi body))
                 then ''islem_tarihi''
               else if truthy_str (vade_tarihi body) \<and> \<not> dateRegex_test (the (vade_tarihi body))
                 then ''vade_tarihi''
               else if truthy_str (odeme_yontemi body) \<and>
                       the (odeme_yontemi body) \<notin> set [''cash'', ''bank_transfer'', ''check'', ''credit_card'']
                 then ''odeme_yontemi''
               else if truthy_str (durum body) \<and>
                       the (durum body) \<notin> set [''completed'', ''pending'', ''cancelled'']
                 then ''durum''
               else ''tutar''))), d)"
  using assms by (simp add: transactionController_createTransaction_def)

theorem create_amount_upper_bound_witness:
  "to_double 1000000000 > to_double (99999999999 / 100) \<and>
   transactionController_createTransaction 10 buyuk ledger = ((400, Inl (ValidationError ''tutar'')), ledger)"
proof -
  have amount: "tutar buyuk = Some 1000000000"
    and above: "to_double 1000000000 > to_double (99999999999 / 100)"
    by (simp_all add: buyuk_def to_double_samples to_double_bound)
  have checks: "\<not> falsy_num (cari_id buyuk)" "\<not> invalid_type (islem_tipi buyuk)"
      "\<not> invalid_amount (Some (to_double 1000000000))" "truthy_str (islem_tarihi buyuk)"
      "dateRegex_test (the (islem_tarihi buyuk))" "\<not> truthy_str (vade_tarihi buyuk)"
      "\<not> truthy_str (odeme_yontemi buyuk)" "\<not> truthy_str (durum buyuk)"
    by (simp_all add: buyuk_def falsy_num_def invalid_type_def invalid_amount_def truthy_str_def
        dateRegex_test_def is_digit_def to_double_samples)
  show ?thesis
    using create_amount_upper_bound [OF amount above, of 10 ledger] above checks by simp
qed

section \<open>Deleting accounts and groups\<close>

lemmas account_evals = updateAccount_def getAccountById_def Let_def falsy_num_def truthy_str_def
  or_null_def or_else_def balance_or_def trim_def is_space_def emailRegex_test_def

text \<open>
  Claim C5 (account deletion guarded by movements) is not what \<open>deleteAccount\<close> does:
  account 1 of the sample ledger has an active movement, no invoice and no payment, and
  \<open>deleteAccount\<close> soft-deletes it.
\<close>

theorem deleteAccount_ignores_movements:
  "filter (\<lambda>t. t_account_id t = 1 \<and> t_is_active t) (transactions ledger) = [gelir] \<and>
   deleteAccount 20 1 ledger =
     (Inr (), ledger\<lparr>accounts := [ahmet\<lparr>a_is_active := False, a_updated_at := 20\<rparr>, tedarik]\<rparr>)"
  by (simp add: deleteAccount_def getAccountById_def Let_def ledger_defs)

lemma getGroupById_Inr:
  "getGroupById gid d = Inr g \<Longrightarrow> filter (\<lambda>g. g_id g = gid) (account_groups d) \<noteq> []"
  by (auto simp: getGroupById_def split: list.splits)

lemma group_links_deleteAccount:
  "getGroupAccountCount gid (snd (deleteAccount now aid d)) = getGroupAccountCount gid d"
proof -
  have "filter (\<lambda>a. a_group_id a = Some gid)
          (map (\<lambda>a. if a_id a = aid then a\<lparr>a_is_active := False, a_updated_at := now\<rparr> else a) rows) =
        map (\<lambda>a. if a_id a = aid then a\<lparr>a_is_active := False, a_updated_at := now\<rparr> else a)
          (filter (\<lambda>a. a_group_id a = Some gid) rows)" for rows :: "account list"
    by (induction rows) auto
  then show ?thesis
    by (auto simp: deleteAccount_def getGroupAccountCount_def Let_def split: sum.splits)
qed

text \<open>
  What the guard of \<open>deleteGroup\<close> does: for an existing group it fails with
  \<open>HasDependents\<close> and changes nothing when the number of account rows carrying its
  id, active or soft-deleted, is positive; it removes the group row when that number is 0;
  and \<open>deleteAccount\<close> never changes that number.
\<close>

lemma deleteGroup_guard:
  assumes "getGroupById gid d = Inr g"
  shows "(getGroupAccountCount gid d > 0 \<longrightarrow>
            deleteGroup gid d = (Inl (HasDependents (getGroupAccountCount gid d)), d)) \<and>
         (getGroupAccountCount gid d = 0 \<longrightarrow>
            deleteGroup gid d = (Inr (), d\<lparr>account_groups := filter (\<lambda>g. g_id g \<noteq> gid) (account_groups d)\<rparr>)) \<and>
         getGroupAccountCount gid (snd (deleteAccount now aid d)) = getGroupAccountCount gid d"
  using assms getGroupById_Inr [OF assms]
  by (simp add: deleteGroup_def getGroupAccountCount_def Let_def group_links_deleteAccount [unfolded getGroupAccountCount_def])

text \<open>
  Claim C6 (group deletion guard) is not what \<open>deleteGroup\<close> does after its accounts
  have been deleted: account 1 is the only account of group 1 and has no movement;
  \<open>deleteAccount\<close> soft-deletes it, after which the group has no active account, yet
  the count of \<open>deleteGroup\<close> still finds the row and the delete fails with
  \<open>HasDependents\<close>. The soft-deleted account cannot be taken out of the group either:
  \<open>updateAccount\<close> no longer finds it.
\<close>

theorem deleteGroup_blocked_by_deleted_account:
  "getGroupAccountCount 1 yeni_defter = 1 \<and>
   fst (deleteAccount 20 1 yeni_defter) = Inr () \<and>
   filter (\<lambda>a. a_group_id a = Some 1 \<and> a_is_active a) (accounts (snd (deleteAccount 20 1 yeni_defter))) = [] \<and>
   deleteGroup 1 (snd (deleteAccount 20 1 yeni_defter)) =
     (Inl (HasDependents 1), snd (deleteAccount 20 1 yeni_defter)) \<and>
   updateAccount 30 1 grupsuz (snd (deleteAccount 20 1 yeni_defter)) =
     (Inl NotFound, snd (deleteAccount 20 1 yeni_defter))"
  by (simp add: deleteAccount_def deleteGroup_def getGroupById_def getGroupAccountCount_def
      updateAccount_def getAccountById_def Let_def yeni_defter_def ledger_defs)

theorem deleteGroup_blocked_by_deleted_account_witness:
  "fst (deleteGroup 1 (snd (deleteAccount 20 1 yeni_defter))) = Inl (HasDependents 1) \<and>
   fst (updateAccount 30 1 grupsuz (snd (deleteAccount 20 1 yeni_defter))) = Inl NotFound"
  using deleteGroup_blocked_by_deleted_account by simp

section \<open>Updating an account with balance 0\<close>

lemma getAccountById_Inr:
  "getAccountById aid d = Inr a \<Longrightarrow> \<exists>rest. filter (\<lambda>a. a_id a = aid \<and> a_is_active a) (accounts d) = a # rest"
  by (auto simp: getAccountById_def split: list.splits)

lemma filter_map_update_account:
  assumes "\<And>a. a_id (f a) = a_id a" and "\<And>a. a_is_active (f a) = a_is_active a"
  shows "filter (\<lambda>a. a_id a = aid \<and> a_is_active a) (map (\<lambda>a. if a_id a = aid \<and> a_is_active a then f a else a) rows) =
         map f (filter (\<lambda>a. a_id a = aid \<and> a_is_active a) rows)"
  using assms by (induction rows) auto

text \<open>
  Claim C10 (an explicit zero balance is not stored). When an update of an active account
  supplies balance 0 and succeeds, the account still has the balance it had before.
\<close>

theorem update_zero_balance_kept:
  assumes "getAccountById aid d = Inr existing"
    and "balance data = Some 0"
    and "fst (updateAccount now aid data d) = Inr r"
  shows "\<exists>updated. getAccountById aid (snd (updateAccount now aid data d)) = Inr updated \<and>
           a_balance updated = a_balance existing"
proof -
  from getAccountById_Inr [OF assms(1)] obtain rest
    where rows: "filter (\<lambda>a. a_id a = aid \<and> a_is_active a) (accounts d) = existing # rest" by blast
  define f :: "account \<Rightarrow> account" where "f a = a\<lparr>a_account_name := trim (the (account_name data)),
      a_account_code := or_null (account_code data),
      a_group_id := (if falsy_num (group_id data) then None else group_id data),
      a_phone := or_null (phone data),
      a_email := (if truthy_str (email data) then Some (trim (the (email data))) else None),
      a_address := or_null (address data),
      a_tax_number := or_null (tax_number data),
      a_tax_office := or_null (tax_office data),
      a_balance := balance_or (balance data) (a_balance existing),
      a_account_type := or_else (account_type data) (a_account_type existing),
      a_updated_at := now\<rparr>" for a
  have res: "accounts (snd (updateAccount now aid data d)) =
      map (\<lambda>a. if a_id a = aid \<and> a_is_active a then f a else a) (accounts d)"
    using assms(3) unfolding f_def
    by (auto simp: updateAccount_def assms(1) Let_def split: if_splits)
  have "filter (\<lambda>a. a_id a = aid \<and> a_is_active a) (accounts (snd (updateAccount now aid data d))) =
        map f (existing # rest)"
    unfolding res rows [symmetric]
    by (rule filter_map_update_account) (simp_all add: f_def)
  then have "getAccountById aid (snd (updateAccount now aid data d)) = Inr (f existing)"
    by (simp add: getAccountById_def)
  moreover have "a_balance (f existing) = a_balance existing"
    by (simp add: f_def assms(2) balance_or_def)
  ultimately show ?thesis by blast
qed

theorem update_zero_balance_kept_witness:
  "balance sifirla = Some 0 \<and>
   fst (updateAccount 30 1 sifirla ledger) = Inr (1, ''Ahmet'', Some ''AH001'') \<and>
   map a_balance (accounts ledger) = [3001 / 2, - 500] \<and>
   map a_balance (accounts (snd (updateAccount 30 1 sifirla ledger))) = [3001 / 2, - 500]"
proof -
  have ex: "getAccountById 1 ledger = Inr ahmet"
    by (simp add: getAccountById_def ledger_defs)
  have zero: "balance sifirla = Some 0" by (simp add: sifirla_def)
  have ok: "fst (updateAccount 30 1 sifirla ledger) = Inr (1, ''Ahmet'', Some ''AH001'')"
    by (simp add: account_evals sifirla_def ledger_defs)
  have rows: "map a_id (accounts (snd (updateAccount 30 1 sifirla ledger))) = [1, 2]"
      "map a_is_active (accounts (snd (updateAccount 30 1 sifirla ledger))) = [True, True]"
      "a_balance (accounts (snd (updateAccount 30 1 sifirla ledger)) ! 1) = - 500"
    by (simp_all add: account_evals sifirla_def ledger_defs)
  from update_zero_balance_kept [OF ex zero ok] obtain updated
    where u: "getAccountById 1 (snd (updateAccount 30 1 sifirla ledger)) = Inr updated"
      "a_balance updated = a_balance ahmet" by blast
  obtain x y where xy: "accounts (snd (updateAccount 30 1 sifirla ledger)) = [x, y]"
    using rows(1) by (auto simp: map_eq_Cons_conv)
  with rows u have "a_balance x = 3001 / 2" "a_balance y = - 500"
    by (auto simp: getAccountById_def ahmet_def)
  then show ?thesis
    using zero ok xy by (simp add: ledger_defs)
qed


section \<open>The total count of a filtered list\<close>

lemmas filter_evals = getFilteredTransactions_def filter_conditions_def filter_params_def
  filter_paging_def paging_params_def execute_baseQuery_def execute_countQuery_def where_rows_def
  page_def order_rows_def newer_first_def like_term_def falsy_num_def truthy_str_def invalid_type_def
  trim_def is_space_def Let_def bind_int_def parseInt_samples

lemma placeholders_filter_conditions:
  "sum_list (map placeholders (filter_conditions filters)) = length (filter_params filters)"
  by (simp add: filter_conditions_def filter_params_def split: option.splits)

lemma length_filter_conditions:
  "\<not> truthy_str (f_aciklama_icinde filters) \<Longrightarrow>
   length (filter_conditions filters) = length (filter_params filters)"
  by (simp add: filter_conditions_def filter_params_def split: option.splits)

lemma length_paging_params:
  "length (paging_params filters) = paging_placeholders (filter_paging filters)"
  by (simp add: paging_params_def filter_paging_def)

lemma page_numeric:
  assumes "PNaN \<notin> set (paging_params filters)"
  shows "\<exists>rows'. page (filter_paging filters) (paging_params filters) rows = Inr rows'"
proof (cases "falsy_num (f_limit filters)")
  case True
  then show ?thesis by (simp add: page_def filter_paging_def)
next
  case no_limit: False
  show ?thesis
  proof (cases "falsy_num (f_offset filters)")
    case True
    then show ?thesis
      using no_limit assms
      by (cases "parseInt (the (f_limit filters))")
         (simp_all add: page_def paging_params_def filter_paging_def bind_int_def)
  next
    case False
    then show ?thesis
      using no_limit assms
      by (cases "parseInt (the (f_limit filters))"; cases "parseInt (the (f_offset filters))")
         (simp_all add: page_def paging_params_def filter_paging_def bind_int_def)
  qed
qed

text \<open>
  Without a text filter the slice is the list of condition values, and \<open>totalCount\<close>
  is the number of active movements that satisfy the conditions, whatever the limit and
  the offset (which are numbers).
\<close>

theorem total_count_without_text_filter:
  assumes "\<not> truthy_str (f_aciklama_icinde filters)" and "PNaN \<notin> set (paging_params filters)"
  shows "\<exists>rows. getFilteredTransactions like filters d =
           Inr (rows, length (where_rows like (filter_conditions filters) (filter_params filters) (transactions d)))"
proof -
  obtain rows' where
    "page (filter_paging filters) (paging_params filters)
       (order_rows (where_rows like (filter_conditions filters) (filter_params filters) (transactions d))) = Inr rows'"
    using page_numeric [OF assms(2)] by blast
  then show ?thesis
    using assms(1)
    by (simp add: getFilteredTransactions_def execute_baseQuery_def execute_countQuery_def Let_def
        placeholders_filter_conditions length_filter_conditions length_paging_params)
qed

text \<open>
  Claim C9 (total count independent of limit and offset) is not what
  \<open>getFilteredTransactions\<close> does: with an account filter, a text filter and a limit,
  the slice for the count statement keeps the limit as a fourth value for three
  placeholders, and the call fails; the same filters without the limit give the page and
  the count 1.
\<close>

theorem filtered_count_fails_with_limit:
  "filter_conditions suzgec = [AccountIdEq, TextLike] \<and>
   take (length (filter_conditions suzgec) * 2) (filter_params suzgec @ paging_params suzgec) =
     [PInt 1, PStr ''%Fatura%'', PStr ''%Fatura%'', PInt 10] \<and>
   getFilteredTransactions like_term suzgec ledger = Inl StorageError \<and>
   getFilteredTransactions like_term (suzgec\<lparr>f_limit := None\<rparr>) ledger = Inr ([gelir], 1)"
  by (simp add: filter_evals suzgec_def ledger_defs)



end
